theory Spec2Isabelle
  imports Complex_Main "HOL-Library.Monad_Syntax"
begin

section \<open>Conventions of the embedding\<close>

text \<open>
  The development embeds the standings engine of the MLBStandings sources:
  \<^verbatim>\<open>Models/StandingsModels.swift\<close> (raw records, domain entities, the tolerant parsers),
  \<^verbatim>\<open>Services/StandingsService.swift\<close> (the fetch client) and
  \<^verbatim>\<open>ViewModels/StandingsViewModel.swift\<close> (the ranking engine).

  \<^item> A Swift \<^verbatim>\<open>Int\<close> is an \<^typ>\<open>int\<close>; \<^verbatim>\<open>Int.min\<close> is written out as \<open>- 2 ^ 63\<close>.
  \<^item> A Swift \<^verbatim>\<open>Double\<close> is a \<^typ>\<open>real\<close>: the finite values only, with exact arithmetic.
    NaN and the infinities, and rounding of binary floating point, are outside the model.
  \<^item> A Swift \<^verbatim>\<open>String\<close> is a \<^typ>\<open>string\<close> holding its UTF-8 bytes; the em-dash
    \<^verbatim>\<open>U+2014\<close> is the three bytes \<^verbatim>\<open>E2 80 94\<close>. Case mapping is the one of the ASCII letters.
  \<^item> A struct is a record. Several structs of the source share field names
    (\<^verbatim>\<open>id\<close>, \<^verbatim>\<open>name\<close>, \<^verbatim>\<open>wins\<close>, ...): a field keeps its name in \<open>TeamStanding\<close>,
    \<open>StandingsSection\<close> and the view model, and carries a suffix naming its struct where
    the name is taken already (\<open>_ti\<close> for \<^verbatim>\<open>TeamInfo\<close>, \<open>_tr\<close> for \<^verbatim>\<open>TeamRecord\<close>, \<open>_s\<close> for
    the section, \<open>_t\<close> for the team standing, and so on).
  \<^item> The colour palette \<^verbatim>\<open>TeamBranding\<close> of a team is presentation data and is left out.
\<close>

section \<open>Strings\<close>

definition emDash :: string where
  "emDash = [CHR 0xE2, CHR 0x80, CHR 0x94]"

definition lower_char :: "char \<Rightarrow> char" where
  "lower_char c =
     (case map_of (zip ''ABCDEFGHIJKLMNOPQRSTUVWXYZ'' ''abcdefghijklmnopqrstuvwxyz'') c of
        Some l \<Rightarrow> l | None \<Rightarrow> c)"

definition upper_char :: "char \<Rightarrow> char" where
  "upper_char c =
     (case map_of (zip ''abcdefghijklmnopqrstuvwxyz'' ''ABCDEFGHIJKLMNOPQRSTUVWXYZ'') c of
        Some u \<Rightarrow> u | None \<Rightarrow> c)"

definition lowercased :: "string \<Rightarrow> string" where
  "lowercased s = map lower_char s"

definition uppercased :: "string \<Rightarrow> string" where
  "uppercased s = map upper_char s"

fun hasPrefix :: "string \<Rightarrow> string \<Rightarrow> bool" where
  "hasPrefix s [] = True"
| "hasPrefix [] (p # ps) = False"
| "hasPrefix (c # cs) (p # ps) = (c = p \<and> hasPrefix cs ps)"

text \<open>\<^verbatim>\<open>s.contains(q)\<close>: \<open>q\<close> occurs in \<open>s\<close> as a contiguous substring. The source
  calls it with a non-empty \<open>q\<close> only.\<close>

fun contains_str :: "string \<Rightarrow> string \<Rightarrow> bool" where
  "contains_str [] q = hasPrefix [] q"
| "contains_str (c # cs) q = (hasPrefix (c # cs) q \<or> contains_str cs q)"

text \<open>\<^verbatim>\<open>joined(separator:)\<close>.\<close>

fun joined :: "string \<Rightarrow> string list \<Rightarrow> string" where
  "joined sep [] = []"
| "joined sep [x] = x"
| "joined sep (x # y # ys) = x @ sep @ joined sep (y # ys)"

text \<open>\<^verbatim>\<open>split(separator:)\<close> with its defaults: empty pieces are omitted.\<close>

fun split_acc :: "char \<Rightarrow> string \<Rightarrow> string \<Rightarrow> string list" where
  "split_acc sep cur [] = (if cur = [] then [] else [cur])"
| "split_acc sep cur (c # cs) =
     (if c = sep then (if cur = [] then [] else [cur]) @ split_acc sep [] cs
      else split_acc sep (cur @ [c]) cs)"

definition split_on :: "char \<Rightarrow> string \<Rightarrow> string list" where
  "split_on sep s = split_acc sep [] s"

text \<open>\<^verbatim>\<open>trimmingCharacters(in:)\<close>: the characters of the set are removed at both ends.\<close>

definition trimmingCharacters :: "string \<Rightarrow> string \<Rightarrow> string" where
  "trimmingCharacters cs s =
     rev (dropWhile (\<lambda>c. c \<in> set cs) (rev (dropWhile (\<lambda>c. c \<in> set cs) s)))"

section \<open>The number parsers and the number formatter of the standard library\<close>

definition Int_min :: int where
  "Int_min = - (2 ^ 63)"

definition Int_max :: int where
  "Int_max = 2 ^ 63 - 1"

definition digit_val :: "char \<Rightarrow> nat option" where
  "digit_val c = map_of (zip ''0123456789'' [0, 1, 2, 3, 4, 5, 6, 7, 8, 9]) c"

definition is_digit :: "char \<Rightarrow> bool" where
  "is_digit c = (digit_val c \<noteq> None)"

fun digits_val :: "nat \<Rightarrow> string \<Rightarrow> nat" where
  "digits_val acc [] = acc"
| "digits_val acc (c # cs) =
     digits_val (acc * 10 + (case digit_val c of Some d \<Rightarrow> d | None \<Rightarrow> 0)) cs"

definition parse_nat :: "string \<Rightarrow> nat option" where
  "parse_nat s = (if s \<noteq> [] \<and> list_all is_digit s then Some (digits_val 0 s) else None)"

text \<open>\<^verbatim>\<open>Int(_: String)\<close> of the standard library: an optional sign and decimal digits,
  nothing else, and a value that fits 64 bits.\<close>

definition Int_of_string :: "string \<Rightarrow> int option" where
  "Int_of_string s =
     (case s of
        [] \<Rightarrow> None
      | c # cs \<Rightarrow>
          (case (if c = CHR ''-'' then map_option (\<lambda>n. - int n) (parse_nat cs)
                 else if c = CHR ''+'' then map_option int (parse_nat cs)
                 else map_option int (parse_nat s)) of
             None \<Rightarrow> None
           | Some v \<Rightarrow> if Int_min \<le> v \<and> v \<le> Int_max then Some v else None))"

text \<open>\<^verbatim>\<open>Double(_: String)\<close> of the standard library, on plain decimal numerals: digits
  with an optional decimal point, at least one digit, an optional sign. Exponents,
  hexadecimal numerals and the spellings of infinity and NaN are outside the model.\<close>

definition unsigned_decimal :: "string \<Rightarrow> real option" where
  "unsigned_decimal s =
     (let ip = takeWhile is_digit s; rest = dropWhile is_digit s
      in case rest of
           [] \<Rightarrow> if ip = [] then None else Some (real (digits_val 0 ip))
         | d # fp \<Rightarrow>
             if d = CHR ''.'' \<and> list_all is_digit fp \<and> (ip \<noteq> [] \<or> fp \<noteq> [])
             then Some (real (digits_val 0 ip) + real (digits_val 0 fp) / 10 ^ length fp)
             else None)"

definition Double_of_string :: "string \<Rightarrow> real option" where
  "Double_of_string s =
     (case s of
        [] \<Rightarrow> None
      | c # cs \<Rightarrow>
          if c = CHR ''-'' then map_option uminus (unsigned_decimal cs)
          else if c = CHR ''+'' then unsigned_decimal cs
          else unsigned_decimal s)"

definition digit_char :: "nat \<Rightarrow> char" where
  "digit_char n = ''0123456789'' ! (n mod 10)"

fun string_of_nat :: "nat \<Rightarrow> string" where
  "string_of_nat n =
     (if n < 10 then [digit_char n] else string_of_nat (n div 10) @ [digit_char (n mod 10)])"

declare string_of_nat.simps [simp del]

definition round_half_even :: "real \<Rightarrow> int" where
  "round_half_even x =
     (let f = \<lfloor>x\<rfloor>; d = x - of_int f
      in if d < 1 / 2 then f else if 1 / 2 < d then f + 1 else if even f then f else f + 1)"

text \<open>\<^verbatim>\<open>String(format: "%.pf", v)\<close>: \<open>v\<close> in fixed notation with \<open>p\<close> decimals.\<close>

definition format_fixed :: "nat \<Rightarrow> real \<Rightarrow> string" where
  "format_fixed p v =
     (let scaled = nat (round_half_even (\<bar>v\<bar> * 10 ^ p));
          fp = string_of_nat (scaled mod 10 ^ p)
      in (if v < 0 then ''-'' else [])
         @ string_of_nat (scaled div 10 ^ p)
         @ (if p = 0 then [] else ''.'' @ replicate (p - length fp) (CHR ''0'') @ fp))"

section \<open>The tolerant parser of the models file\<close>

text \<open>\<^verbatim>\<open>private extension Double { init?(_ string: String?) }\<close>. Inside it,
  \<^verbatim>\<open>Double(trimmed)\<close> takes a \<^verbatim>\<open>String\<close> that is not optional and is the parser of the
  standard library.\<close>

definition Double_tolerant :: "string option \<Rightarrow> real option" where
  "Double_tolerant string =
     (case string of
        None \<Rightarrow> None
      | Some str \<Rightarrow>
          let trimmed = trimmingCharacters '' %'' str
          in if trimmed = [] then None
             else if trimmed = emDash \<or> trimmed = ''-'' then None
             else (case Double_of_string trimmed of
                     Some v \<Rightarrow> Some v
                   | None \<Rightarrow>
                       (case Double_of_string (''0'' @ trimmed) of
                          Some fractional \<Rightarrow> Some fractional
                        | None \<Rightarrow> None)))"

section \<open>Raw records of the web API\<close>

record TeamInfo =
  id_ti :: int
  name_ti :: string
  teamName_ti :: "string option"
  shortName_ti :: "string option"
  clubName_ti :: "string option"
  locationName_ti :: "string option"
  abbreviation_ti :: "string option"
  fileCode_ti :: "string option"

record DivisionInfo =
  id_di :: int
  name_di :: string
  nameShort_di :: "string option"
  abbreviation_di :: "string option"
  shortName_di :: "string option"

record LeagueInfo =
  id_li :: int
  name_li :: string
  abbreviation_li :: "string option"

record Streak =
  streakCode_sk :: "string option"
  streakNumber_sk :: "int option"
  streakType_sk :: "string option"

record Split =
  wins_sp :: "int option"
  losses_sp :: "int option"
  pct_sp :: "string option"

record TeamRecord =
  team_tr :: TeamInfo
  streak_tr :: "Streak option"
  divisionRank_tr :: "string option"
  leagueRank_tr :: "string option"
  wildCardRank_tr :: "string option"
  clinched_tr :: "bool option"
  wins_tr :: int
  losses_tr :: int
  winningPercentage_tr :: string
  gamesBack_tr :: "string option"
  runsScored_tr :: "int option"
  runsAllowed_tr :: "int option"
  runDifferential_tr :: "int option"
  lastTen_tr :: "string option"
  home_tr :: "Split option"
  away_tr :: "Split option"
  extraInnings_tr :: "Split option"
  oneRun_tr :: "Split option"

record DivisionRecord =
  teamRecords_dr :: "TeamRecord list"
  division_dr :: "DivisionInfo option"
  league_dr :: "LeagueInfo option"
  season_dr :: "string option"

record StandingsResponse =
  records :: "DivisionRecord list"

section \<open>Domain entities\<close>

record RecordSplit =
  wins_rs :: int
  losses_rs :: int
  percentage :: real

record TeamStanding =
  id_t :: int
  name :: string
  shortName :: string
  location :: string
  abbreviation_t :: string
  wins :: int
  losses :: int
  winningPercentage :: real
  winningPercentageText :: string
  gamesBack :: "real option"
  gamesBackText :: string
  runDifferential :: "int option"
  runsScored :: "int option"
  runsAllowed :: "int option"
  divisionRank :: "int option"
  leagueRank :: "int option"
  wildCardRank :: "int option"
  streakCode :: string
  streakCount :: int
  streakIsWin :: bool
  lastTenRecord :: string
  lastTenWinRate :: real
  clinched :: bool
  homeRecord :: "RecordSplit option"
  awayRecord :: "RecordSplit option"
  extraInningsRecord :: "RecordSplit option"
  oneRunRecord :: "RecordSplit option"
  season_t :: int
  leagueID_t :: int
  divisionID_t :: int

record StandingsSection =
  id_s :: int
  divisionID :: int
  leagueID :: int
  leagueName :: string
  leagueAbbreviation :: string
  title :: string
  subtitle :: string
  teams :: "TeamStanding list"
  season_s :: int

section \<open>The normalizer\<close>

text \<open>The coalescing operator \<^verbatim>\<open>a ?? b\<close>.\<close>

definition orElse :: "'a option \<Rightarrow> 'a \<Rightarrow> 'a" where
  "orElse a b = (case a of Some v \<Rightarrow> v | None \<Rightarrow> b)"

text \<open>\<^verbatim>\<open>RecordSplit.init?(split:)\<close>; \<^verbatim>\<open>Double(split?.pct)\<close> takes an optional string and
  is the tolerant parser.\<close>

definition RecordSplit_of :: "Split option \<Rightarrow> RecordSplit option" where
  "RecordSplit_of split =
     (case Option.bind split wins_sp of
        None \<Rightarrow> None
      | Some w \<Rightarrow>
          (case Option.bind split losses_sp of
             None \<Rightarrow> None
           | Some l \<Rightarrow>
               Some \<lparr>wins_rs = w, losses_rs = l,
                     percentage = orElse (Double_tolerant (Option.bind split pct_sp)) 0\<rparr>))"

text \<open>\<^verbatim>\<open>TeamStanding.winRate(from:)\<close>; the pieces are substrings, parsed by the standard
  library.\<close>

definition winRate :: "string \<Rightarrow> real" where
  "winRate record =
     (case split_on (CHR ''-'') record of
        [c0, c1] \<Rightarrow>
          (case Double_of_string c0 of
             None \<Rightarrow> 0
           | Some w \<Rightarrow>
               (case Double_of_string c1 of
                  None \<Rightarrow> 0
                | Some l \<Rightarrow> let total = w + l in if total > 0 then w / total else 0))
      | _ \<Rightarrow> 0)"

definition defaultStreakCode :: "Streak option \<Rightarrow> string" where
  "defaultStreakCode streak =
     (case streak of
        None \<Rightarrow> []
      | Some s \<Rightarrow>
          let number = orElse (streakNumber_sk s) 0;
              pre = (if lowercased (orElse (streakType_sk s) []) = ''wins'' then ''W'' else ''L'')
          in pre @ (if number < 0 then ''-'' else []) @ string_of_nat (nat \<bar>number\<bar>))"

text \<open>The display text of the games-back column, lines 196 to 202 of the models file:
  \<^verbatim>\<open>Double(record.gamesBack)\<close> takes the optional string and is the tolerant parser.\<close>

definition gamesBackText_of :: "string option \<Rightarrow> string" where
  "gamesBackText_of gb =
     (case Double_tolerant gb of
        Some gamesBackValue \<Rightarrow>
          if gamesBackValue = 0 then emDash else format_fixed 1 gamesBackValue @ '' GB''
      | None \<Rightarrow> orElse gb emDash)"

text \<open>\<^verbatim>\<open>TeamStanding.init(record:league:division:season:)\<close>. The string
  \<^verbatim>\<open>record.winningPercentage\<close> is not optional, so \<^verbatim>\<open>Double(record.winningPercentage)\<close>
  is the parser of the standard library, as \<^verbatim>\<open>Double(trimmed)\<close> is inside the tolerant
  parser; the rank strings go through \<^verbatim>\<open>Int(_: String)\<close>.\<close>

definition TeamStanding_of ::
  "TeamRecord \<Rightarrow> LeagueInfo option \<Rightarrow> DivisionInfo option \<Rightarrow> int \<Rightarrow> TeamStanding" where
  "TeamStanding_of record league division season =
     (let team = team_tr record;
          percentageValue = orElse (Double_of_string (winningPercentage_tr record)) 0;
          code = orElse (Option.bind (streak_tr record) streakCode_sk) [];
          lastTen = orElse (lastTen_tr record) ''0-0''
      in \<lparr>id_t = id_ti team,
          name = name_ti team,
          shortName = orElse (shortName_ti team) (orElse (teamName_ti team) (name_ti team)),
          location = orElse (locationName_ti team) (name_ti team),
          abbreviation_t = orElse (abbreviation_ti team) (uppercased (take 3 (name_ti team))),
          wins = wins_tr record,
          losses = losses_tr record,
          winningPercentage = percentageValue,
          winningPercentageText = format_fixed 3 percentageValue,
          gamesBack = Double_tolerant (gamesBack_tr record),
          gamesBackText = gamesBackText_of (gamesBack_tr record),
          runDifferential = runDifferential_tr record,
          runsScored = runsScored_tr record,
          runsAllowed = runsAllowed_tr record,
          divisionRank = Int_of_string (orElse (divisionRank_tr record) []),
          leagueRank = Int_of_string (orElse (leagueRank_tr record) []),
          wildCardRank = Int_of_string (orElse (wildCardRank_tr record) []),
          streakCode = (if code = [] then defaultStreakCode (streak_tr record) else code),
          streakCount =
            orElse (Option.bind (streak_tr record) streakNumber_sk)
              (orElse (Int_of_string (drop 1 code)) 0),
          streakIsWin =
            (map_option lowercased (Option.bind (streak_tr record) streakType_sk) = Some ''wins''
             \<or> hasPrefix (uppercased code) ''W''),
          lastTenRecord = lastTen,
          lastTenWinRate = winRate lastTen,
          clinched = orElse (clinched_tr record) False,
          homeRecord = RecordSplit_of (home_tr record),
          awayRecord = RecordSplit_of (away_tr record),
          extraInningsRecord = RecordSplit_of (extraInnings_tr record),
          oneRunRecord = RecordSplit_of (oneRun_tr record),
          season_t = season,
          leagueID_t = orElse (map_option id_li league) 0,
          divisionID_t = orElse (map_option id_di division) 0\<rparr>)"

text \<open>\<^verbatim>\<open>StandingsSection.init(from:)\<close>. The calendar year
  \<^verbatim>\<open>StandingsViewModel.currentSeason\<close> is the parameter \<open>currentSeason\<close>.\<close>

definition StandingsSection_of :: "int \<Rightarrow> DivisionRecord \<Rightarrow> StandingsSection" where
  "StandingsSection_of currentSeason record =
     (let leagueId = orElse (map_option id_li (league_dr record)) 0;
          lname = orElse (map_option name_li (league_dr record)) ''Major League Baseball'';
          derivedAbbreviation =
            (case Option.bind (league_dr record) abbreviation_li of
               Some explicit \<Rightarrow> explicit
             | None \<Rightarrow>
                 if contains_str (lowercased lname) (lowercased ''American'') then ''AL''
                 else if contains_str (lowercased lname) (lowercased ''National'') then ''NL''
                 else ''MLB'');
          divisionId = orElse (map_option id_di (division_dr record)) (leagueId * 100 + 1);
          mappedSeason = orElse (Int_of_string (orElse (season_dr record) [])) currentSeason
      in \<lparr>id_s = divisionId,
          divisionID = divisionId,
          leagueID = leagueId,
          leagueName = lname,
          leagueAbbreviation = derivedAbbreviation,
          title = orElse (map_option name_di (division_dr record)) lname,
          subtitle =
            orElse (Option.bind (division_dr record) shortName_di)
              (orElse (Option.bind (division_dr record) nameShort_di)
                 (orElse (map_option name_li (league_dr record)) [])),
          teams =
            map (\<lambda>r. TeamStanding_of r (league_dr record) (division_dr record) mappedSeason)
              (teamRecords_dr record),
          season_s = mappedSeason\<rparr>)"

section \<open>The built-in sample data\<close>

text \<open>\<^verbatim>\<open>TeamStanding.sample\<close> (the first team below) and \<^verbatim>\<open>StandingsSection.sample\<close>,
  field by field as the models file spells them.\<close>

definition yankees :: TeamStanding where
  "yankees =
    \<lparr>id_t = 147,
      name = ''New York Yankees'',
      shortName = ''Yankees'',
      location = ''New York'',
      abbreviation_t = ''NYY'',
      wins = 62,
      losses = 30,
      winningPercentage = 0.674,
      winningPercentageText = ''0.674'',
      gamesBack = Some 0,
      gamesBackText = emDash,
      runDifferential = Some 126,
      runsScored = Some 432,
      runsAllowed = Some 306,
      divisionRank = Some 1,
      leagueRank = Some 1,
      wildCardRank = None,
      streakCode = ''W4'',
      streakCount = 4,
      streakIsWin = True,
      lastTenRecord = ''8-2'',
      lastTenWinRate = 0.8,
      clinched = False,
      homeRecord = Some \<lparr>wins_rs = 35, losses_rs = 14, percentage = 0.714\<rparr>,
      awayRecord = Some \<lparr>wins_rs = 27, losses_rs = 16, percentage = 0.628\<rparr>,
      extraInningsRecord = Some \<lparr>wins_rs = 5, losses_rs = 2, percentage = 0.714\<rparr>,
      oneRunRecord = Some \<lparr>wins_rs = 12, losses_rs = 8, percentage = 0.600\<rparr>,
      season_t = 2024,
      leagueID_t = 103,
      divisionID_t = 201\<rparr>"

definition orioles :: TeamStanding where
  "orioles =
    \<lparr>id_t = 110,
      name = ''Baltimore Orioles'',
      shortName = ''Orioles'',
      location = ''Baltimore'',
      abbreviation_t = ''BAL'',
      wins = 58,
      losses = 35,
      winningPercentage = 0.624,
      winningPercentageText = ''0.624'',
      gamesBack = Some 4,
      gamesBackText = ''4.0 GB'',
      runDifferential = Some 94,
      runsScored = Some 421,
      runsAllowed = Some 327,
      divisionRank = Some 2,
      leagueRank = Some 3,
      wildCardRank = Some 1,
      streakCode = ''W2'',
      streakCount = 2,
      streakIsWin = True,
      lastTenRecord = ''7-3'',
      lastTenWinRate = 0.7,
      clinched = False,
      homeRecord = Some \<lparr>wins_rs = 30, losses_rs = 18, percentage = 0.625\<rparr>,
      awayRecord = Some \<lparr>wins_rs = 28, losses_rs = 17, percentage = 0.622\<rparr>,
      extraInningsRecord = Some \<lparr>wins_rs = 4, losses_rs = 1, percentage = 0.800\<rparr>,
      oneRunRecord = Some \<lparr>wins_rs = 13, losses_rs = 9, percentage = 0.591\<rparr>,
      season_t = 2024,
      leagueID_t = 103,
      divisionID_t = 201\<rparr>"

definition rays :: TeamStanding where
  "rays =
    \<lparr>id_t = 139,
      name = ''Tampa Bay Rays'',
      shortName = ''Rays'',
      location = ''Tampa Bay'',
      abbreviation_t = ''TB'',
      wins = 53,
      losses = 40,
      winningPercentage = 0.570,
      winningPercentageText = ''0.570'',
      gamesBack = Some 9,
      gamesBackText = ''9.0 GB'',
      runDifferential = Some 61,
      runsScored = Some 398,
      runsAllowed = Some 337,
      divisionRank = Some 3,
      leagueRank = Some 6,
      wildCardRank = Some 2,
      streakCode = ''L1'',
      streakCount = 1,
      streakIsWin = False,
      lastTenRecord = ''6-4'',
      lastTenWinRate = 0.6,
      clinched = False,
      homeRecord = Some \<lparr>wins_rs = 29, losses_rs = 18, percentage = 0.617\<rparr>,
      awayRecord = Some \<lparr>wins_rs = 24, losses_rs = 22, percentage = 0.522\<rparr>,
      extraInningsRecord = Some \<lparr>wins_rs = 3, losses_rs = 2, percentage = 0.600\<rparr>,
      oneRunRecord = Some \<lparr>wins_rs = 11, losses_rs = 10, percentage = 0.524\<rparr>,
      season_t = 2024,
      leagueID_t = 103,
      divisionID_t = 201\<rparr>"

definition blueJays :: TeamStanding where
  "blueJays =
    \<lparr>id_t = 141,
      name = ''Toronto Blue Jays'',
      shortName = ''Blue Jays'',
      location = ''Toronto'',
      abbreviation_t = ''TOR'',
      wins = 47,
      losses = 46,
      winningPercentage = 0.505,
      winningPercentageText = ''0.505'',
      gamesBack = Some 15,
      gamesBackText = ''15.0 GB'',
      runDifferential = Some 12,
      runsScored = Some 372,
      runsAllowed = Some 360,
      divisionRank = Some 4,
      leagueRank = Some 8,
      wildCardRank = Some 5,
      streakCode = ''W1'',
      streakCount = 1,
      streakIsWin = True,
      lastTenRecord = ''5-5'',
      lastTenWinRate = 0.5,
      clinched = False,
      homeRecord = Some \<lparr>wins_rs = 25, losses_rs = 21, percentage = 0.543\<rparr>,
      awayRecord = Some \<lparr>wins_rs = 22, losses_rs = 25, percentage = 0.468\<rparr>,
      extraInningsRecord = Some \<lparr>wins_rs = 2, losses_rs = 3, percentage = 0.400\<rparr>,
      oneRunRecord = Some \<lparr>wins_rs = 15, losses_rs = 12, percentage = 0.556\<rparr>,
      season_t = 2024,
      leagueID_t = 103,
      divisionID_t = 201\<rparr>"

definition redSox :: TeamStanding where
  "redSox =
    \<lparr>id_t = 111,
      name = ''Boston Red Sox'',
      shortName = ''Red Sox'',
      location = ''Boston'',
      abbreviation_t = ''BOS'',
      wins = 43,
      losses = 52,
      winningPercentage = 0.453,
      winningPercentageText = ''0.453'',
      gamesBack = Some 19,
      gamesBackText = ''19.0 GB'',
      runDifferential = Some (- 18),
      runsScored = Some 360,
      runsAllowed = Some 378,
      divisionRank = Some 5,
      leagueRank = Some 11,
      wildCardRank = Some 7,
      streakCode = ''L2'',
      streakCount = 2,
      streakIsWin = False,
      lastTenRecord = ''4-6'',
      lastTenWinRate = 0.4,
      clinched = False,
      homeRecord = Some \<lparr>wins_rs = 19, losses_rs = 27, percentage = 0.413\<rparr>,
      awayRecord = Some \<lparr>wins_rs = 24, losses_rs = 25, percentage = 0.490\<rparr>,
      extraInningsRecord = Some \<lparr>wins_rs = 1, losses_rs = 4, percentage = 0.200\<rparr>,
      oneRunRecord = Some \<lparr>wins_rs = 10, losses_rs = 16, percentage = 0.385\<rparr>,
      season_t = 2024,
      leagueID_t = 103,
      divisionID_t = 201\<rparr>"

definition dodgers :: TeamStanding where
  "dodgers =
    \<lparr>id_t = 119,
      name = ''Los Angeles Dodgers'',
      shortName = ''Dodgers'',
      location = ''Los Angeles'',
      abbreviation_t = ''LAD'',
      wins = 65,
      losses = 28,
      winningPercentage = 0.699,
      winningPercentageText = ''0.699'',
      gamesBack = Some 0,
      gamesBackText = emDash,
      runDifferential = Some 154,
      runsScored = Some 468,
      runsAllowed = Some 314,
      divisionRank = Some 1,
      leagueRank = Some 1,
      wildCardRank = None,
      streakCode = ''W6'',
      streakCount = 6,
      streakIsWin = True,
      lastTenRecord = ''9-1'',
      lastTenWinRate = 0.9,
      clinched = False,
      homeRecord = Some \<lparr>wins_rs = 35, losses_rs = 12, percentage = 0.745\<rparr>,
      awayRecord = Some \<lparr>wins_rs = 30, losses_rs = 16, percentage = 0.652\<rparr>,
      extraInningsRecord = Some \<lparr>wins_rs = 6, losses_rs = 1, percentage = 0.857\<rparr>,
      oneRunRecord = Some \<lparr>wins_rs = 18, losses_rs = 9, percentage = 0.667\<rparr>,
      season_t = 2024,
      leagueID_t = 104,
      divisionID_t = 203\<rparr>"

definition padres :: TeamStanding where
  "padres =
    \<lparr>id_t = 135,
      name = ''San Diego Padres'',
      shortName = ''Padres'',
      location = ''San Diego'',
      abbreviation_t = ''SD'',
      wins = 57,
      losses = 37,
      winningPercentage = 0.606,
      winningPercentageText = ''0.606'',
      gamesBack = Some 8,
      gamesBackText = ''8.0 GB'',
      runDifferential = Some 72,
      runsScored = Some 420,
      runsAllowed = Some 348,
      divisionRank = Some 2,
      leagueRank = Some 3,
      wildCardRank = Some 1,
      streakCode = ''W3'',
      streakCount = 3,
      streakIsWin = True,
      lastTenRecord = ''7-3'',
      lastTenWinRate = 0.7,
      clinched = False,
      homeRecord = Some \<lparr>wins_rs = 29, losses_rs = 18, percentage = 0.617\<rparr>,
      awayRecord = Some \<lparr>wins_rs = 28, losses_rs = 19, percentage = 0.596\<rparr>,
      extraInningsRecord = Some \<lparr>wins_rs = 4, losses_rs = 2, percentage = 0.667\<rparr>,
      oneRunRecord = Some \<lparr>wins_rs = 16, losses_rs = 11, percentage = 0.593\<rparr>,
      season_t = 2024,
      leagueID_t = 104,
      divisionID_t = 203\<rparr>"

definition giants :: TeamStanding where
  "giants =
    \<lparr>id_t = 137,
      name = ''San Francisco Giants'',
      shortName = ''Giants'',
      location = ''San Francisco'',
      abbreviation_t = ''SF'',
      wins = 49,
      losses = 45,
      winningPercentage = 0.521,
      winningPercentageText = ''0.521'',
      gamesBack = Some 16,
      gamesBackText = ''16.0 GB'',
      runDifferential = Some 24,
      runsScored = Some 390,
      runsAllowed = Some 366,
      divisionRank = Some 3,
      leagueRank = Some 6,
      wildCardRank = Some 2,
      streakCode = ''L1'',
      streakCount = 1,
      streakIsWin = False,
      lastTenRecord = ''6-4'',
      lastTenWinRate = 0.6,
      clinched = False,
      homeRecord = Some \<lparr>wins_rs = 27, losses_rs = 22, percentage = 0.551\<rparr>,
      awayRecord = Some \<lparr>wins_rs = 22, losses_rs = 23, percentage = 0.489\<rparr>,
      extraInningsRecord = Some \<lparr>wins_rs = 3, losses_rs = 3, percentage = 0.500\<rparr>,
      oneRunRecord = Some \<lparr>wins_rs = 14, losses_rs = 13, percentage = 0.519\<rparr>,
      season_t = 2024,
      leagueID_t = 104,
      divisionID_t = 203\<rparr>"

definition diamondbacks :: TeamStanding where
  "diamondbacks =
    \<lparr>id_t = 109,
      name = ''Arizona Diamondbacks'',
      shortName = ''D-backs'',
      location = ''Arizona'',
      abbreviation_t = ''ARI'',
      wins = 46,
      losses = 49,
      winningPercentage = 0.484,
      winningPercentageText = ''0.484'',
      gamesBack = Some 19,
      gamesBackText = ''19.0 GB'',
      runDifferential = Some (- 12),
      runsScored = Some 364,
      runsAllowed = Some 376,
      divisionRank = Some 4,
      leagueRank = Some 8,
      wildCardRank = Some 5,
      streakCode = ''W1'',
      streakCount = 1,
      streakIsWin = True,
      lastTenRecord = ''5-5'',
      lastTenWinRate = 0.5,
      clinched = False,
      homeRecord = Some \<lparr>wins_rs = 24, losses_rs = 23, percentage = 0.511\<rparr>,
      awayRecord = Some \<lparr>wins_rs = 22, losses_rs = 26, percentage = 0.458\<rparr>,
      extraInningsRecord = Some \<lparr>wins_rs = 2, losses_rs = 4, percentage = 0.333\<rparr>,
      oneRunRecord = Some \<lparr>wins_rs = 12, losses_rs = 17, percentage = 0.414\<rparr>,
      season_t = 2024,
      leagueID_t = 104,
      divisionID_t = 203\<rparr>"

definition rockies :: TeamStanding where
  "rockies =
    \<lparr>id_t = 115,
      name = ''Colorado Rockies'',
      shortName = ''Rockies'',
      location = ''Colorado'',
      abbreviation_t = ''COL'',
      wins = 38,
      losses = 57,
      winningPercentage = 0.400,
      winningPercentageText = ''0.400'',
      gamesBack = Some 27,
      gamesBackText = ''27.0 GB'',
      runDifferential = Some (- 92),
      runsScored = Some 330,
      runsAllowed = Some 422,
      divisionRank = Some 5,
      leagueRank = Some 13,
      wildCardRank = Some 8,
      streakCode = ''L4'',
      streakCount = 4,
      streakIsWin = False,
      lastTenRecord = ''3-7'',
      lastTenWinRate = 0.3,
      clinched = False,
      homeRecord = Some \<lparr>wins_rs = 22, losses_rs = 27, percentage = 0.449\<rparr>,
      awayRecord = Some \<lparr>wins_rs = 16, losses_rs = 30, percentage = 0.348\<rparr>,
      extraInningsRecord = Some \<lparr>wins_rs = 1, losses_rs = 6, percentage = 0.143\<rparr>,
      oneRunRecord = Some \<lparr>wins_rs = 9, losses_rs = 21, percentage = 0.300\<rparr>,
      season_t = 2024,
      leagueID_t = 104,
      divisionID_t = 203\<rparr>"

definition alEast :: StandingsSection where
  "alEast =
    \<lparr>id_s = 201,
      divisionID = 201,
      leagueID = 103,
      leagueName = ''American League'',
      leagueAbbreviation = ''AL'',
      title = ''American League East'',
      subtitle = ''AL East'',
      teams = [yankees, orioles, rays, blueJays, redSox],
      season_s = 2024\<rparr>"

definition nlWest :: StandingsSection where
  "nlWest =
    \<lparr>id_s = 203,
      divisionID = 203,
      leagueID = 104,
      leagueName = ''National League'',
      leagueAbbreviation = ''NL'',
      title = ''National League West'',
      subtitle = ''NL West'',
      teams = [dodgers, padres, giants, diamondbacks, rockies],
      season_s = 2024\<rparr>"

definition sample :: "StandingsSection list" where
  "sample = [alEast, nlWest]"

section \<open>Sorting and maximum of the standard library\<close>

text \<open>\<^verbatim>\<open>sorted(by:)\<close> is a stable sort: elements that the predicate
  \<open>areInIncreasingOrder\<close> does not order keep their relative order. The model is the stable
  insertion sort; every stable sort returns the same list when the predicate is a strict
  weak order, which is what the standard library asks of it.\<close>

fun insert_by :: "('a \<Rightarrow> 'a \<Rightarrow> bool) \<Rightarrow> 'a \<Rightarrow> 'a list \<Rightarrow> 'a list" where
  "insert_by lt x [] = [x]"
| "insert_by lt x (y # ys) = (if lt y x then y # insert_by lt x ys else x # y # ys)"

definition sorted_by :: "('a \<Rightarrow> 'a \<Rightarrow> bool) \<Rightarrow> 'a list \<Rightarrow> 'a list" where
  "sorted_by lt xs = foldr (insert_by lt) xs []"

text \<open>\<^verbatim>\<open>max(by:)\<close>: the running result is replaced by an element only when the predicate
  puts the result strictly before it, so the first of several maxima is returned.\<close>

definition max_by :: "('a \<Rightarrow> 'a \<Rightarrow> bool) \<Rightarrow> 'a list \<Rightarrow> 'a option" where
  "max_by lt xs =
     (case xs of
        [] \<Rightarrow> None
      | x # rest \<Rightarrow> Some (foldl (\<lambda>result e. if lt result e then e else result) x rest))"

section \<open>The ranking engine\<close>

datatype LeagueFilter = league_all | american | national

datatype SortOption =
  by_divisionRank | by_winningPercentage | by_runDifferential | by_streak | by_lastTen
  | by_runsScored

record StandingsViewModel =
  sections :: "StandingsSection list"
  filteredSections :: "StandingsSection list"
  isLoading :: bool
  errorMessage :: "string option"
  searchText :: string
  selectedLeague :: LeagueFilter
  selectedDivisionID :: "int option"
  sortOption :: SortOption
  showFavoritesOnly :: bool
  favorites :: "int set"
  season :: int

definition searchableText :: "TeamStanding \<Rightarrow> string" where
  "searchableText t =
     lowercased (joined '' '' [name t, shortName t, location t, abbreviation_t t])"

text \<open>The six comparators of \<^verbatim>\<open>sort(teams:)\<close>, by sort option.\<close>

fun comparator :: "SortOption \<Rightarrow> TeamStanding \<Rightarrow> TeamStanding \<Rightarrow> bool" where
  "comparator by_divisionRank lhs rhs =
     (orElse (divisionRank lhs) 0 < orElse (divisionRank rhs) 0)"
| "comparator by_winningPercentage lhs rhs =
     (if winningPercentage lhs = winningPercentage rhs
      then orElse (divisionRank lhs) 0 < orElse (divisionRank rhs) 0
      else winningPercentage lhs > winningPercentage rhs)"
| "comparator by_runDifferential lhs rhs =
     (if orElse (runDifferential lhs) Int_min = orElse (runDifferential rhs) Int_min
      then orElse (divisionRank lhs) 0 < orElse (divisionRank rhs) 0
      else orElse (runDifferential lhs) Int_min > orElse (runDifferential rhs) Int_min)"
| "comparator by_streak lhs rhs =
     (if streakCount lhs = streakCount rhs
      then orElse (divisionRank lhs) 0 < orElse (divisionRank rhs) 0
      else streakCount lhs > streakCount rhs)"
| "comparator by_lastTen lhs rhs =
     (if lastTenWinRate lhs = lastTenWinRate rhs
      then orElse (divisionRank lhs) 0 < orElse (divisionRank rhs) 0
      else lastTenWinRate lhs > lastTenWinRate rhs)"
| "comparator by_runsScored lhs rhs =
     (if orElse (runsScored lhs) Int_min = orElse (runsScored rhs) Int_min
      then orElse (divisionRank lhs) 0 < orElse (divisionRank rhs) 0
      else orElse (runsScored lhs) Int_min > orElse (runsScored rhs) Int_min)"

text \<open>The predicate handed to \<^verbatim>\<open>sorted(by:)\<close> at the end of \<^verbatim>\<open>sort(teams:)\<close>.\<close>

definition prioritized_order ::
  "int set \<Rightarrow> SortOption \<Rightarrow> TeamStanding \<Rightarrow> TeamStanding \<Rightarrow> bool" where
  "prioritized_order favs opt lhs rhs =
     (let lhsFavorite = id_t lhs \<in> favs; rhsFavorite = id_t rhs \<in> favs
      in if lhsFavorite = rhsFavorite then comparator opt lhs rhs
         else lhsFavorite \<and> \<not> rhsFavorite)"

definition sort_teams :: "StandingsViewModel \<Rightarrow> TeamStanding list \<Rightarrow> TeamStanding list" where
  "sort_teams vm ts = sorted_by (prioritized_order (favorites vm) (sortOption vm)) ts"

text \<open>The body of the \<^verbatim>\<open>compactMap\<close> closure of \<^verbatim>\<open>applyFilters\<close>.\<close>

definition filterSection :: "StandingsViewModel \<Rightarrow> StandingsSection \<Rightarrow> StandingsSection option" where
  "filterSection vm section =
     (let ts0 = teams section;
          ts1 = (if showFavoritesOnly vm then filter (\<lambda>t. id_t t \<in> favorites vm) ts0 else ts0);
          ts2 = (if searchText vm \<noteq> []
                 then let query = lowercased (searchText vm)
                      in filter (\<lambda>team. contains_str (searchableText team) query) ts1
                 else ts1);
          ts3 = sort_teams vm ts2
      in if ts3 = [] then None else Some (section\<lparr>teams := ts3\<rparr>))"

definition leagueSections :: "LeagueFilter \<Rightarrow> StandingsSection list \<Rightarrow> StandingsSection list" where
  "leagueSections league ss =
     (case league of
        league_all \<Rightarrow> ss
      | american \<Rightarrow> filter (\<lambda>s. leagueAbbreviation s = ''AL'') ss
      | national \<Rightarrow> filter (\<lambda>s. leagueAbbreviation s = ''NL'') ss)"

definition applyFilters :: "StandingsViewModel \<Rightarrow> StandingsViewModel" where
  "applyFilters vm =
     (let ws0 = leagueSections (selectedLeague vm) (sections vm);
          ws1 = (case selectedDivisionID vm of
                   Some d \<Rightarrow> filter (\<lambda>s. divisionID s = d) ws0
                 | None \<Rightarrow> ws0);
          ws2 = List.map_filter (filterSection vm) ws1
      in vm\<lparr>filteredSections := ws2\<rparr>)"

definition availableDivisionIDs :: "LeagueFilter \<Rightarrow> StandingsViewModel \<Rightarrow> int set" where
  "availableDivisionIDs league vm = set (map divisionID (leagueSections league (sections vm)))"

text \<open>Assignments to the published properties: the new value is stored and the
  \<^verbatim>\<open>didSet\<close> observer of the property runs, also when the value did not change.\<close>

definition set_searchText :: "string \<Rightarrow> StandingsViewModel \<Rightarrow> StandingsViewModel" where
  "set_searchText v vm = applyFilters (vm\<lparr>searchText := v\<rparr>)"

definition set_selectedDivisionID :: "int option \<Rightarrow> StandingsViewModel \<Rightarrow> StandingsViewModel" where
  "set_selectedDivisionID v vm = applyFilters (vm\<lparr>selectedDivisionID := v\<rparr>)"

definition set_selectedLeague :: "LeagueFilter \<Rightarrow> StandingsViewModel \<Rightarrow> StandingsViewModel" where
  "set_selectedLeague v vm =
     (let vm1 = vm\<lparr>selectedLeague := v\<rparr>;
          vm2 = (case selectedDivisionID vm1 of
                   Some d \<Rightarrow>
                     if d \<notin> availableDivisionIDs (selectedLeague vm1) vm1
                     then set_selectedDivisionID None vm1 else vm1
                 | None \<Rightarrow> vm1)
      in applyFilters vm2)"

definition set_sortOption :: "SortOption \<Rightarrow> StandingsViewModel \<Rightarrow> StandingsViewModel" where
  "set_sortOption v vm = applyFilters (vm\<lparr>sortOption := v\<rparr>)"

definition set_showFavoritesOnly :: "bool \<Rightarrow> StandingsViewModel \<Rightarrow> StandingsViewModel" where
  "set_showFavoritesOnly v vm = applyFilters (vm\<lparr>showFavoritesOnly := v\<rparr>)"

definition set_favorites :: "int set \<Rightarrow> StandingsViewModel \<Rightarrow> StandingsViewModel" where
  "set_favorites v vm = applyFilters (vm\<lparr>favorites := v\<rparr>)"

definition toggleFavorite :: "TeamStanding \<Rightarrow> StandingsViewModel \<Rightarrow> StandingsViewModel" where
  "toggleFavorite team vm =
     (if id_t team \<in> favorites vm then set_favorites (favorites vm - {id_t team}) vm
      else set_favorites (insert (id_t team) (favorites vm)) vm)"

definition clearFilters :: "StandingsViewModel \<Rightarrow> StandingsViewModel" where
  "clearFilters vm =
     set_showFavoritesOnly False
       (set_sortOption by_divisionRank
          (set_selectedDivisionID None
             (set_selectedLeague league_all
                (set_searchText [] vm))))"

definition aggregatedTeams :: "StandingsViewModel \<Rightarrow> TeamStanding list" where
  "aggregatedTeams vm = concat (map teams (sections vm))"

definition bestWinPercentageTeam :: "StandingsViewModel \<Rightarrow> TeamStanding option" where
  "bestWinPercentageTeam vm =
     max_by (\<lambda>a b. winningPercentage a < winningPercentage b) (aggregatedTeams vm)"

definition hottestStreakTeam :: "StandingsViewModel \<Rightarrow> TeamStanding option" where
  "hottestStreakTeam vm = max_by (\<lambda>a b. streakCount a < streakCount b) (aggregatedTeams vm)"

definition bestRunDifferentialTeam :: "StandingsViewModel \<Rightarrow> TeamStanding option" where
  "bestRunDifferentialTeam vm =
     max_by (\<lambda>a b. orElse (runDifferential a) Int_min < orElse (runDifferential b) Int_min)
       (aggregatedTeams vm)"

section \<open>Errors\<close>

datatype ServiceError = invalidResponse | decodingFailed

text \<open>What \<^verbatim>\<open>fetchStandings\<close> throws: an error of the service, or the error of the
  transport, of which the model keeps the localized description.\<close>

datatype FetchError = Service ServiceError | Transport string

definition errorDescription :: "ServiceError \<Rightarrow> string option" where
  "errorDescription e =
     (case e of
        invalidResponse \<Rightarrow> Some ''The server returned an unexpected response.''
      | decodingFailed \<Rightarrow> Some ''We couldn't parse the latest standings data.'')"

definition userFriendlyDescription :: "FetchError \<Rightarrow> string" where
  "userFriendlyDescription e =
     (case e of
        Service se \<Rightarrow> (case errorDescription se of Some description \<Rightarrow> description | None \<Rightarrow> [])
      | Transport description \<Rightarrow> description)"

section \<open>The fetch client\<close>

text \<open>The body of a reply as the JSON decoder sees it. The keys of an object are the keys
  after the key strategy \<^verbatim>\<open>convertFromSnakeCase\<close> of the decoder, which leaves a key
  without underscores as it is.\<close>

datatype json =
  JNull | JBool bool | JNumber real | JString string | JArray "json list"
  | JObject "(string \<times> json) list"

text \<open>The decoding of the primitive types: a value of another shape is a type mismatch,
  and a number decodes to an \<^verbatim>\<open>Int\<close> when it is integral and fits 64 bits. \<open>None\<close> stands
  for the thrown \<^verbatim>\<open>DecodingError\<close>.\<close>

definition decode_Int :: "json \<Rightarrow> int option" where
  "decode_Int j =
     (case j of
        JNumber r \<Rightarrow>
          if r = of_int \<lfloor>r\<rfloor> \<and> Int_min \<le> \<lfloor>r\<rfloor> \<and> \<lfloor>r\<rfloor> \<le> Int_max then Some \<lfloor>r\<rfloor> else None
      | _ \<Rightarrow> None)"

definition decode_String :: "json \<Rightarrow> string option" where
  "decode_String j = (case j of JString s \<Rightarrow> Some s | _ \<Rightarrow> None)"

definition decode_Bool :: "json \<Rightarrow> bool option" where
  "decode_Bool j = (case j of JBool b \<Rightarrow> Some b | _ \<Rightarrow> None)"

text \<open>\<^verbatim>\<open>[T]\<close>: a JSON array whose elements all decode.\<close>

definition decode_Array :: "(json \<Rightarrow> 'a option) \<Rightarrow> json \<Rightarrow> 'a list option" where
  "decode_Array dec j = (case j of JArray js \<Rightarrow> those (map dec js) | _ \<Rightarrow> None)"

text \<open>The keyed container of a struct: the value must be an object.\<close>

definition keyed :: "json \<Rightarrow> (string \<times> json) list option" where
  "keyed j = (case j of JObject kvs \<Rightarrow> Some kvs | _ \<Rightarrow> None)"

text \<open>The synthesized \<^verbatim>\<open>init(from:)\<close> of a \<^verbatim>\<open>Decodable\<close> struct reads a property that is
  not optional with \<^verbatim>\<open>decode(_:forKey:)\<close>, which throws when the key is missing or its
  value is null, and an optional property with \<^verbatim>\<open>decodeIfPresent(_:forKey:)\<close>, which
  gives \<^verbatim>\<open>nil\<close> there; both throw when a value is present and does not decode.\<close>

definition required :: "(json \<Rightarrow> 'a option) \<Rightarrow> string \<Rightarrow> (string \<times> json) list \<Rightarrow> 'a option" where
  "required dec k kvs =
     (case map_of kvs k of None \<Rightarrow> None | Some JNull \<Rightarrow> None | Some v \<Rightarrow> dec v)"

definition ifPresent ::
  "(json \<Rightarrow> 'a option) \<Rightarrow> string \<Rightarrow> (string \<times> json) list \<Rightarrow> 'a option option" where
  "ifPresent dec k kvs =
     (case map_of kvs k of
        None \<Rightarrow> Some None
      | Some JNull \<Rightarrow> Some None
      | Some v \<Rightarrow> map_option Some (dec v))"

definition decode_TeamInfo :: "json \<Rightarrow> TeamInfo option" where
  "decode_TeamInfo j = do {
     c \<leftarrow> keyed j;
     i \<leftarrow> required decode_Int ''id'' c;
     n \<leftarrow> required decode_String ''name'' c;
     tn \<leftarrow> ifPresent decode_String ''teamName'' c;
     sn \<leftarrow> ifPresent decode_String ''shortName'' c;
     cn \<leftarrow> ifPresent decode_String ''clubName'' c;
     ln \<leftarrow> ifPresent decode_String ''locationName'' c;
     ab \<leftarrow> ifPresent decode_String ''abbreviation'' c;
     fc \<leftarrow> ifPresent decode_String ''fileCode'' c;
     Some \<lparr>id_ti = i, name_ti = n, teamName_ti = tn, shortName_ti = sn, clubName_ti = cn,
           locationName_ti = ln, abbreviation_ti = ab, fileCode_ti = fc\<rparr>
   }"

definition decode_DivisionInfo :: "json \<Rightarrow> DivisionInfo option" where
  "decode_DivisionInfo j = do {
     c \<leftarrow> keyed j;
     i \<leftarrow> required decode_Int ''id'' c;
     n \<leftarrow> required decode_String ''name'' c;
     ns \<leftarrow> ifPresent decode_String ''nameShort'' c;
     ab \<leftarrow> ifPresent decode_String ''abbreviation'' c;
     sn \<leftarrow> ifPresent decode_String ''shortName'' c;
     Some \<lparr>id_di = i, name_di = n, nameShort_di = ns, abbreviation_di = ab, shortName_di = sn\<rparr>
   }"

definition decode_LeagueInfo :: "json \<Rightarrow> LeagueInfo option" where
  "decode_LeagueInfo j = do {
     c \<leftarrow> keyed j;
     i \<leftarrow> required decode_Int ''id'' c;
     n \<leftarrow> required decode_String ''name'' c;
     ab \<leftarrow> ifPresent decode_String ''abbreviation'' c;
     Some \<lparr>id_li = i, name_li = n, abbreviation_li = ab\<rparr>
   }"

definition decode_Streak :: "json \<Rightarrow> Streak option" where
  "decode_Streak j = do {
     c \<leftarrow> keyed j;
     sc \<leftarrow> ifPresent decode_String ''streakCode'' c;
     sn \<leftarrow> ifPresent decode_Int ''streakNumber'' c;
     st \<leftarrow> ifPresent decode_String ''streakType'' c;
     Some \<lparr>streakCode_sk = sc, streakNumber_sk = sn, streakType_sk = st\<rparr>
   }"

definition decode_Split :: "json \<Rightarrow> Split option" where
  "decode_Split j = do {
     c \<leftarrow> keyed j;
     w \<leftarrow> ifPresent decode_Int ''wins'' c;
     l \<leftarrow> ifPresent decode_Int ''losses'' c;
     p \<leftarrow> ifPresent decode_String ''pct'' c;
     Some \<lparr>wins_sp = w, losses_sp = l, pct_sp = p\<rparr>
   }"

definition decode_TeamRecord :: "json \<Rightarrow> TeamRecord option" where
  "decode_TeamRecord j = do {
     c \<leftarrow> keyed j;
     tm \<leftarrow> required decode_TeamInfo ''team'' c;
     sk \<leftarrow> ifPresent decode_Streak ''streak'' c;
     dr \<leftarrow> ifPresent decode_String ''divisionRank'' c;
     lr \<leftarrow> ifPresent decode_String ''leagueRank'' c;
     wr \<leftarrow> ifPresent decode_String ''wildCardRank'' c;
     cl \<leftarrow> ifPresent decode_Bool ''clinched'' c;
     w \<leftarrow> required decode_Int ''wins'' c;
     l \<leftarrow> required decode_Int ''losses'' c;
     wp \<leftarrow> required decode_String ''winningPercentage'' c;
     gb \<leftarrow> ifPresent decode_String ''gamesBack'' c;
     rs \<leftarrow> ifPresent decode_Int ''runsScored'' c;
     ra \<leftarrow> ifPresent decode_Int ''runsAllowed'' c;
     rd \<leftarrow> ifPresent decode_Int ''runDifferential'' c;
     lt \<leftarrow> ifPresent decode_String ''lastTen'' c;
     ho \<leftarrow> ifPresent decode_Split ''home'' c;
     aw \<leftarrow> ifPresent decode_Split ''away'' c;
     ei \<leftarrow> ifPresent decode_Split ''extraInnings'' c;
     orun \<leftarrow> ifPresent decode_Split ''oneRun'' c;
     Some \<lparr>team_tr = tm, streak_tr = sk, divisionRank_tr = dr, leagueRank_tr = lr,
           wildCardRank_tr = wr, clinched_tr = cl, wins_tr = w, losses_tr = l,
           winningPercentage_tr = wp, gamesBack_tr = gb, runsScored_tr = rs,
           runsAllowed_tr = ra, runDifferential_tr = rd, lastTen_tr = lt, home_tr = ho,
           away_tr = aw, extraInnings_tr = ei, oneRun_tr = orun\<rparr>
   }"

definition decode_DivisionRecord :: "json \<Rightarrow> DivisionRecord option" where
  "decode_DivisionRecord j = do {
     c \<leftarrow> keyed j;
     trs \<leftarrow> required (decode_Array decode_TeamRecord) ''teamRecords'' c;
     dv \<leftarrow> ifPresent decode_DivisionInfo ''division'' c;
     lg \<leftarrow> ifPresent decode_LeagueInfo ''league'' c;
     se \<leftarrow> ifPresent decode_String ''season'' c;
     Some \<lparr>teamRecords_dr = trs, division_dr = dv, league_dr = lg, season_dr = se\<rparr>
   }"

definition decode_StandingsResponse :: "json \<Rightarrow> StandingsResponse option" where
  "decode_StandingsResponse j = do {
     c \<leftarrow> keyed j;
     rs \<leftarrow> required (decode_Array decode_DivisionRecord) ''records'' c;
     Some \<lparr>records = rs\<rparr>
   }"

text \<open>What \<^verbatim>\<open>session.data(from:)\<close> does with the request: it throws (the description
  of the error is kept), or it answers with a response, of which the model keeps the
  HTTP status code (\<open>None\<close> when the response is not an HTTP response), and with data, of
  which the model keeps the JSON value (\<open>None\<close> when the data is not JSON).\<close>

datatype URLReply = Failed string | Answered "int option" "json option"

text \<open>\<^verbatim>\<open>fetchStandings(season:leagueIds:)\<close>. The session is a function of the query; the
  URL of the query is always well formed, so the first guard never throws.\<close>

definition fetchStandings ::
  "(int \<Rightarrow> int list \<Rightarrow> URLReply) \<Rightarrow> int \<Rightarrow> int list \<Rightarrow> FetchError + StandingsResponse" where
  "fetchStandings session season_q leagueIds =
     (case session season_q leagueIds of
        Failed description \<Rightarrow> Inl (Transport description)
      | Answered status body \<Rightarrow>
          if status \<noteq> Some 200 then Inl (Service invalidResponse)
          else (case Option.bind body decode_StandingsResponse of
                  Some response \<Rightarrow> Inr response
                | None \<Rightarrow> Inl (Service decodingFailed)))"

section \<open>Loading\<close>

text \<open>\<^verbatim>\<open>loadStandings(force:)\<close>, run from entry to exit. The view model lives on the main
  actor; what other tasks do while the fetch is suspended is not part of the model. The
  calendar year is the parameter \<open>currentSeason\<close>, and \<^verbatim>\<open>fetchStandings\<close> is called with
  its default league identifiers.\<close>

definition loadStandings ::
  "int \<Rightarrow> (int \<Rightarrow> int list \<Rightarrow> URLReply) \<Rightarrow> bool \<Rightarrow> StandingsViewModel \<Rightarrow> StandingsViewModel" where
  "loadStandings currentSeason session force vm =
     (if isLoading vm then vm
      else if \<not> force \<and> sections vm \<noteq> [] then vm
      else
        let vm1 = vm\<lparr>isLoading := True, errorMessage := None\<rparr>
        in case fetchStandings session (season vm1) [103, 104] of
             Inr response \<Rightarrow>
               (let mappedSections = map (StandingsSection_of currentSeason) (records response)
                in (applyFilters (vm1\<lparr>sections := mappedSections\<rparr>))\<lparr>isLoading := False\<rparr>)
           | Inl error \<Rightarrow>
               (applyFilters (vm1\<lparr>sections := sample\<rparr>))
                 \<lparr>errorMessage := Some (userFriendlyDescription error), isLoading := False\<rparr>)"

definition refresh ::
  "int \<Rightarrow> (int \<Rightarrow> int list \<Rightarrow> URLReply) \<Rightarrow> StandingsViewModel \<Rightarrow> StandingsViewModel" where
  "refresh currentSeason session vm = loadStandings currentSeason session True vm"

text \<open>An assignment to \<^verbatim>\<open>season\<close>: its observer starts a forced load, which is run here
  at once.\<close>

definition set_season ::
  "int \<Rightarrow> (int \<Rightarrow> int list \<Rightarrow> URLReply) \<Rightarrow> int \<Rightarrow> StandingsViewModel \<Rightarrow> StandingsViewModel" where
  "set_season currentSeason session v vm =
     loadStandings currentSeason session True (vm\<lparr>season := v\<rparr>)"

text \<open>The view model as its initializer leaves it, before the first load: the initial
  values of the published properties, with the calendar year as the season.\<close>

definition initialModel :: "int \<Rightarrow> StandingsViewModel" where
  "initialModel currentSeason =
     \<lparr>sections = [], filteredSections = [], isLoading = False, errorMessage = None,
      searchText = [], selectedLeague = league_all, selectedDivisionID = None,
      sortOption = by_divisionRank, showFavoritesOnly = False, favorites = {},
      season = currentSeason\<rparr>"


section \<open>Notions for the properties of the sort\<close>

text \<open>A strict weak order: asymmetric, and not being before is transitive. This is what
  \<^verbatim>\<open>sorted(by:)\<close> asks of its predicate.\<close>

definition strict_weak :: "('a \<Rightarrow> 'a \<Rightarrow> bool) \<Rightarrow> bool" where
  "strict_weak lt \<longleftrightarrow>
     (\<forall>a b. lt a b \<longrightarrow> \<not> lt b a) \<and> (\<forall>a b c. \<not> lt a b \<longrightarrow> \<not> lt b c \<longrightarrow> \<not> lt a c)"

text \<open>No element of the list is strictly before an earlier one.\<close>

definition ordered_by :: "('a \<Rightarrow> 'a \<Rightarrow> bool) \<Rightarrow> 'a list \<Rightarrow> bool" where
  "ordered_by lt xs = sorted_wrt (\<lambda>a b. \<not> lt b a) xs"

text \<open>The value that the comparator of a sort option compares first, read off the
  comparators of \<^verbatim>\<open>sort(teams:)\<close>; integers are taken as reals.\<close>

definition primaryMetric :: "SortOption \<Rightarrow> TeamStanding \<Rightarrow> real" where
  "primaryMetric opt t =
     (case opt of
        by_divisionRank \<Rightarrow> real_of_int (orElse (divisionRank t) 0)
      | by_winningPercentage \<Rightarrow> winningPercentage t
      | by_runDifferential \<Rightarrow> real_of_int (orElse (runDifferential t) Int_min)
      | by_streak \<Rightarrow> real_of_int (streakCount t)
      | by_lastTen \<Rightarrow> lastTenWinRate t
      | by_runsScored \<Rightarrow> real_of_int (orElse (runsScored t) Int_min))"

section \<open>Example inputs\<close>

text \<open>A raw team record with the fields that are not optional and nothing else, the JSON
  body of a reply with one division block holding one team record of the given fields,
  and a session that gives the same reply to every request.\<close>

definition exampleRecord :: TeamRecord where
  "exampleRecord =
     \<lparr>team_tr = \<lparr>id_ti = 147, name_ti = ''New York Yankees'', teamName_ti = None,
                 shortName_ti = None, clubName_ti = None, locationName_ti = None,
                 abbreviation_ti = None, fileCode_ti = None\<rparr>,
      streak_tr = None, divisionRank_tr = None, leagueRank_tr = None, wildCardRank_tr = None,
      clinched_tr = None, wins_tr = 62, losses_tr = 30, winningPercentage_tr = ''.674'',
      gamesBack_tr = None, runsScored_tr = None, runsAllowed_tr = None,
      runDifferential_tr = None, lastTen_tr = None, home_tr = None, away_tr = None,
      extraInnings_tr = None, oneRun_tr = None\<rparr>"

definition exampleBody :: "(string \<times> json) list \<Rightarrow> json" where
  "exampleBody teamRecord =
     JObject [(''records'', JArray [JObject [(''teamRecords'', JArray [JObject teamRecord])]])]"

definition replying :: "URLReply \<Rightarrow> int \<Rightarrow> int list \<Rightarrow> URLReply" where
  "replying reply season_q leagueIds = reply"

section \<open>Basic facts about the recompute\<close>

lemma applyFilters_frame [simp]:
  "sections (applyFilters vm) = sections vm"
  "isLoading (applyFilters vm) = isLoading vm"
  "errorMessage (applyFilters vm) = errorMessage vm"
  "searchText (applyFilters vm) = searchText vm"
  "selectedLeague (applyFilters vm) = selectedLeague vm"
  "selectedDivisionID (applyFilters vm) = selectedDivisionID vm"
  "sortOption (applyFilters vm) = sortOption vm"
  "showFavoritesOnly (applyFilters vm) = showFavoritesOnly vm"
  "favorites (applyFilters vm) = favorites vm"
  "season (applyFilters vm) = season vm"
  by (simp_all add: applyFilters_def Let_def)

lemma filterSection_filtered_update [simp]:
  "filterSection (vm\<lparr>filteredSections := fs\<rparr>) = filterSection vm"
  by (rule ext) (simp add: filterSection_def sort_teams_def Let_def)

lemma filterSection_fields:
  "favorites a = favorites b \<Longrightarrow> sortOption a = sortOption b \<Longrightarrow>
   showFavoritesOnly a = showFavoritesOnly b \<Longrightarrow> searchText a = searchText b \<Longrightarrow>
   filterSection a = filterSection b"
  by (rule ext) (simp add: filterSection_def sort_teams_def Let_def)

lemma filterSection_updates [simp]:
  "filterSection (vm\<lparr>isLoading := il\<rparr>) = filterSection vm"
  "filterSection (vm\<lparr>errorMessage := em\<rparr>) = filterSection vm"
  "filterSection (vm\<lparr>sections := ss\<rparr>) = filterSection vm"
  by (rule filterSection_fields; simp)+

lemma applyFilters_filtered_update [simp]:
  "applyFilters (vm\<lparr>filteredSections := fs\<rparr>) = applyFilters vm"
  by (simp add: applyFilters_def Let_def)

lemma applyFilters_idem [simp]: "applyFilters (applyFilters vm) = applyFilters vm"
  by (simp add: applyFilters_def [of vm] Let_def)

lemma availableDivisionIDs_applyFilters [simp]:
  "availableDivisionIDs l (applyFilters vm) = availableDivisionIDs l vm"
  by (simp add: availableDivisionIDs_def)

lemma setters_sections [simp]:
  "sections (set_searchText q vm) = sections vm"
  "sections (set_selectedLeague l vm) = sections vm"
  "sections (set_selectedDivisionID d vm) = sections vm"
  "sections (set_sortOption opt vm) = sections vm"
  "sections (set_showFavoritesOnly b vm) = sections vm"
  "sections (set_favorites f vm) = sections vm"
  "sections (toggleFavorite t vm) = sections vm"
  by (simp_all add: set_searchText_def set_selectedLeague_def set_selectedDivisionID_def
      set_sortOption_def set_showFavoritesOnly_def set_favorites_def toggleFavorite_def Let_def
      split: option.split)

lemma length_insert_by [simp]: "length (insert_by lt x ys) = Suc (length ys)"
  by (induction ys) simp_all

lemma length_sorted_by [simp]: "length (sorted_by lt xs) = length xs"
  by (induction xs) (simp_all add: sorted_by_def)

lemma set_insert_by [simp]: "set (insert_by lt x ys) = insert x (set ys)"
  by (induction ys) auto

lemma set_sorted_by [simp]: "set (sorted_by lt xs) = set xs"
  by (induction xs) (simp_all add: sorted_by_def)

lemma sorted_by_Nil_iff [simp]: "sorted_by lt xs = [] \<longleftrightarrow> xs = []"
  using length_sorted_by [of lt xs] by (metis length_0_conv)

lemma in_set_map_filter:
  "y \<in> set (List.map_filter f xs) \<longleftrightarrow> (\<exists>x \<in> set xs. f x = Some y)"
  by (induction xs) (auto split: option.splits)

lemma filterSection_Some_teams:
  "filterSection vm s = Some s' \<Longrightarrow> teams s' \<noteq> []"
  by (auto simp add: filterSection_def Let_def split: if_splits)

lemma set_filteredSections:
  "s' \<in> set (filteredSections (applyFilters vm)) \<Longrightarrow>
     \<exists>s \<in> set (sections vm). filterSection vm s = Some s'"
  by (auto simp add: applyFilters_def Let_def in_set_map_filter leagueSections_def
      split: option.splits LeagueFilter.splits)

section \<open>Facts about the sample data\<close>

lemma teams_sample:
  "concat (map teams sample) =
     [yankees, orioles, rays, blueJays, redSox, dodgers, padres, giants, diamondbacks, rockies]"
  by (simp add: sample_def alEast_def nlWest_def)

lemma sample_percentages:
  "winningPercentage yankees = 0.674" "winningPercentage orioles = 0.624"
  "winningPercentage rays = 0.570" "winningPercentage blueJays = 0.505"
  "winningPercentage redSox = 0.453" "winningPercentage dodgers = 0.699"
  "winningPercentage padres = 0.606" "winningPercentage giants = 0.521"
  "winningPercentage diamondbacks = 0.484" "winningPercentage rockies = 0.400"
  by (simp_all add: yankees_def orioles_def rays_def blueJays_def redSox_def dodgers_def
      padres_def giants_def diamondbacks_def rockies_def)

lemma sample_ids:
  "id_t yankees = 147" "id_t orioles = 110" "id_t rays = 139" "id_t blueJays = 141"
  "id_t redSox = 111" "id_t dodgers = 119" "id_t padres = 135" "id_t giants = 137"
  "id_t diamondbacks = 109" "id_t rockies = 115"
  by (simp_all add: yankees_def orioles_def rays_def blueJays_def redSox_def dodgers_def
      padres_def giants_def diamondbacks_def rockies_def)

section \<open>The league filter and the selected division\<close>

text \<open>
  Claim C5. When the league filter is changed and the division selected so far is not
  among the divisions available under the new league, the selected division is cleared to
  absent before the recompute: the state after the change is the recompute of the state
  with the new league and no division. After every change of the league filter the
  selected division is absent or available under the league now selected.
\<close>

theorem league_change_clears_division:
  "(selectedDivisionID vm = Some d \<and> d \<notin> availableDivisionIDs l vm \<longrightarrow>
      selectedDivisionID (set_selectedLeague l vm) = None
      \<and> set_selectedLeague l vm
          = applyFilters (vm\<lparr>selectedLeague := l, selectedDivisionID := None\<rparr>))
   \<and> (case selectedDivisionID (set_selectedLeague l vm) of
         None \<Rightarrow> True
       | Some d' \<Rightarrow>
           d' \<in> availableDivisionIDs (selectedLeague (set_selectedLeague l vm))
                  (set_selectedLeague l vm))"
  by (auto simp add: set_selectedLeague_def set_selectedDivisionID_def Let_def
      availableDivisionIDs_def split: option.split)

theorem league_change_clears_division_witness:
  "selectedDivisionID ((initialModel 2024)\<lparr>sections := sample, selectedDivisionID := Some 203\<rparr>)
     = Some 203
   \<and> 203 \<notin> availableDivisionIDs american
        ((initialModel 2024)\<lparr>sections := sample, selectedDivisionID := Some 203\<rparr>)
   \<and> selectedDivisionID
        (set_selectedLeague american
           ((initialModel 2024)\<lparr>sections := sample, selectedDivisionID := Some 203\<rparr>)) = None"
  using league_change_clears_division
    [of "(initialModel 2024)\<lparr>sections := sample, selectedDivisionID := Some 203\<rparr>" 203 american]
  by (simp add: initialModel_def availableDivisionIDs_def leagueSections_def sample_def
      alEast_def nlWest_def)

section \<open>Pruning of empty sections\<close>

text \<open>
  Claim C6. After a recompute every section of the filtered view has at least one team and
  is the filtered, sorted image of a source section (a section with no team left is not
  emitted), and the source sections are what they were: the recompute, the filter and sort
  mutations, the favorite toggle and the clearing of the filters leave them unchanged.
\<close>

theorem recompute_drops_empty_sections:
  "(\<forall>s' \<in> set (filteredSections (applyFilters vm)).
       teams s' \<noteq> [] \<and> (\<exists>s \<in> set (sections vm). filterSection vm s = Some s'))
   \<and> sections (applyFilters vm) = sections vm
   \<and> sections (set_searchText q vm) = sections vm
   \<and> sections (set_selectedLeague l vm) = sections vm
   \<and> sections (set_selectedDivisionID d vm) = sections vm
   \<and> sections (set_sortOption opt vm) = sections vm
   \<and> sections (set_showFavoritesOnly b vm) = sections vm
   \<and> sections (toggleFavorite t vm) = sections vm
   \<and> sections (clearFilters vm) = sections vm"
proof -
  have "\<forall>s' \<in> set (filteredSections (applyFilters vm)).
       teams s' \<noteq> [] \<and> (\<exists>s \<in> set (sections vm). filterSection vm s = Some s')"
    using set_filteredSections filterSection_Some_teams by blast
  moreover have "sections (clearFilters vm) = sections vm"
    by (simp add: clearFilters_def)
  ultimately show ?thesis by simp
qed

theorem recompute_drops_empty_sections_witness:
  "filteredSections
     (applyFilters
        ((initialModel 2024)\<lparr>sections := sample, showFavoritesOnly := True, favorites := {110}\<rparr>))
     = [alEast\<lparr>teams := [orioles]\<rparr>]
   \<and> teams (alEast\<lparr>teams := [orioles]\<rparr>) \<noteq> []
   \<and> sections
        (applyFilters
           ((initialModel 2024)\<lparr>sections := sample, showFavoritesOnly := True,
              favorites := {110}\<rparr>))
       = sample"
proof -
  have "filteredSections
     (applyFilters
        ((initialModel 2024)\<lparr>sections := sample, showFavoritesOnly := True, favorites := {110}\<rparr>))
     = [alEast\<lparr>teams := [orioles]\<rparr>]"
    by (simp add: applyFilters_def initialModel_def leagueSections_def sample_def
        alEast_def nlWest_def filterSection_def sort_teams_def sorted_by_def sample_ids)
  with recompute_drops_empty_sections
    [of "(initialModel 2024)\<lparr>sections := sample, showFavoritesOnly := True, favorites := {110}\<rparr>"]
  show ?thesis by (simp add: initialModel_def)
qed

section \<open>The best-record aggregate\<close>

lemma max_by_fold:
  fixes key :: "'a \<Rightarrow> real"
  shows "foldl (\<lambda>result e. if key result < key e then e else result) x xs \<in> set (x # xs)
     \<and> (\<forall>u \<in> set (x # xs).
          key u \<le> key (foldl (\<lambda>result e. if key result < key e then e else result) x xs))"
proof (induction xs arbitrary: x)
  case Nil
  show ?case by simp
next
  case (Cons y ys)
  show ?case
  proof (cases "key x < key y")
    case True
    with Cons [of y] show ?thesis by auto
  next
    case False
    with Cons [of x] show ?thesis by auto
  qed
qed

lemma max_by_key:
  fixes key :: "'a \<Rightarrow> real"
  shows "(max_by (\<lambda>a b. key a < key b) ts = None \<longleftrightarrow> ts = [])
     \<and> (\<forall>t. max_by (\<lambda>a b. key a < key b) ts = Some t \<longrightarrow>
            t \<in> set ts \<and> (\<forall>u \<in> set ts. key u \<le> key t))"
proof (cases ts)
  case Nil
  then show ?thesis by (simp add: max_by_def)
next
  case (Cons x xs)
  with max_by_fold [of key x xs] show ?thesis
    by (simp add: max_by_def)
qed

text \<open>
  Claim C7. The best-record aggregate is taken over all teams of all source sections: it
  is absent exactly when there is no team, otherwise it is one of these teams and no team
  of any source section has a higher winning percentage; the filtered view and the filter,
  sort and favorite state have no influence on it. On the two sample sections of five
  teams each, with no filter, it is the team with the highest percentage of both.
\<close>

theorem best_record_over_all_teams:
  "(bestWinPercentageTeam vm = None \<longleftrightarrow> concat (map teams (sections vm)) = [])
   \<and> (\<forall>t. bestWinPercentageTeam vm = Some t \<longrightarrow>
          t \<in> set (concat (map teams (sections vm)))
          \<and> (\<forall>u \<in> set (concat (map teams (sections vm))).
                winningPercentage u \<le> winningPercentage t))
   \<and> bestWinPercentageTeam
        (vm\<lparr>filteredSections := fs, searchText := q, selectedLeague := l,
            selectedDivisionID := d, sortOption := opt, showFavoritesOnly := b,
            favorites := f\<rparr>) = bestWinPercentageTeam vm"
  unfolding bestWinPercentageTeam_def aggregatedTeams_def
  using max_by_key [of winningPercentage "concat (map teams (sections vm))"]
  by simp

theorem best_record_over_all_teams_witness:
  "bestWinPercentageTeam ((initialModel 2024)\<lparr>sections := sample\<rparr>) = Some dodgers
   \<and> dodgers \<in> set (concat (map teams (sections ((initialModel 2024)\<lparr>sections := sample\<rparr>))))
   \<and> winningPercentage yankees \<le> winningPercentage dodgers"
proof -
  have "bestWinPercentageTeam ((initialModel 2024)\<lparr>sections := sample\<rparr>) = Some dodgers"
    by (simp add: bestWinPercentageTeam_def aggregatedTeams_def teams_sample max_by_def
        sample_percentages)
  with best_record_over_all_teams [of "(initialModel 2024)\<lparr>sections := sample\<rparr>"]
  show ?thesis by (simp add: teams_sample)
qed

section \<open>Clearing the filters\<close>

text \<open>
  Claim C10. Clearing the filters leaves the search text empty, the league filter at all,
  no division selected, the sort option at division rank and the favorites-only switch
  off; the favorites, the source sections, the loading flag, the error message and the
  season are what they were, so no favorite is erased and nothing is fetched.
\<close>

theorem clearFilters_resets:
  "searchText (clearFilters vm) = [] \<and> selectedLeague (clearFilters vm) = league_all
   \<and> selectedDivisionID (clearFilters vm) = None
   \<and> sortOption (clearFilters vm) = by_divisionRank
   \<and> showFavoritesOnly (clearFilters vm) = False
   \<and> favorites (clearFilters vm) = favorites vm
   \<and> sections (clearFilters vm) = sections vm
   \<and> isLoading (clearFilters vm) = isLoading vm
   \<and> errorMessage (clearFilters vm) = errorMessage vm
   \<and> season (clearFilters vm) = season vm"
  by (simp add: clearFilters_def set_showFavoritesOnly_def set_sortOption_def
      set_selectedDivisionID_def set_selectedLeague_def set_searchText_def Let_def
      split: option.split)

section \<open>The tolerant parser and the winning percentage\<close>

text \<open>
  Claim C8. The tolerant parser yields 0.674 for \<^verbatim>\<open>"0.674"\<close>, 0.654 for \<^verbatim>\<open>".654"\<close> and 1 for
  \<^verbatim>\<open>"1"\<close>, and nothing for the empty string. A team record whose winning percentage is
  the empty string becomes a team standing with winning percentage 0; a section has one
  team per team record, and the team of such a record is among them. A reply whose one
  team record has the empty string as winning percentage is fetched without an error.
\<close>

theorem tolerant_percentage_parser:
  "Double_tolerant (Some ''0.674'') = Some 0.674
   \<and> Double_tolerant (Some ''.654'') = Some 0.654
   \<and> Double_tolerant (Some ''1'') = Some 1
   \<and> Double_tolerant (Some []) = None
   \<and> winningPercentage (TeamStanding_of (r\<lparr>winningPercentage_tr := []\<rparr>) l d y) = 0
   \<and> length (teams (StandingsSection_of cur dr)) = length (teamRecords_dr dr)
   \<and> TeamStanding_of (r\<lparr>winningPercentage_tr := []\<rparr>) (league_dr dr) (division_dr dr)
        (season_s (StandingsSection_of cur dr))
      \<in> set (teams (StandingsSection_of cur
                  (dr\<lparr>teamRecords_dr := before @ r\<lparr>winningPercentage_tr := []\<rparr> # after\<rparr>)))
   \<and> fetchStandings
        (replying (Answered (Some 200) (Some (exampleBody
           [(''team'', JObject [(''id'', JNumber 147), (''name'', JString ''New York Yankees'')]),
            (''wins'', JNumber 62), (''losses'', JNumber 30),
            (''winningPercentage'', JString [])]))))
        2024 [103, 104]
      = Inr \<lparr>records =
               [\<lparr>teamRecords_dr = [exampleRecord\<lparr>winningPercentage_tr := []\<rparr>],
                 division_dr = None, league_dr = None, season_dr = None\<rparr>]\<rparr>"
proof -
  have p1: "Double_tolerant (Some ''0.674'') = Some 0.674" by code_simp
  have p2: "Double_tolerant (Some ''.654'') = Some 0.654" by code_simp
  have p3: "Double_tolerant (Some ''1'') = Some 1" by code_simp
  have p4: "Double_tolerant (Some []) = None" by code_simp
  have t1: "winningPercentage (TeamStanding_of (r\<lparr>winningPercentage_tr := []\<rparr>) l d y) = 0"
    by (simp add: TeamStanding_of_def Let_def Double_of_string_def orElse_def)
  have t2: "length (teams (StandingsSection_of cur dr)) = length (teamRecords_dr dr)"
    by (simp add: StandingsSection_of_def Let_def)
  have t3: "TeamStanding_of (r\<lparr>winningPercentage_tr := []\<rparr>) (league_dr dr) (division_dr dr)
        (season_s (StandingsSection_of cur dr))
      \<in> set (teams (StandingsSection_of cur
                  (dr\<lparr>teamRecords_dr := before @ r\<lparr>winningPercentage_tr := []\<rparr> # after\<rparr>)))"
    by (simp add: StandingsSection_of_def Let_def)
  have t4: "fetchStandings
        (replying (Answered (Some 200) (Some (exampleBody
           [(''team'', JObject [(''id'', JNumber 147), (''name'', JString ''New York Yankees'')]),
            (''wins'', JNumber 62), (''losses'', JNumber 30),
            (''winningPercentage'', JString [])]))))
        2024 [103, 104]
      = Inr \<lparr>records =
               [\<lparr>teamRecords_dr = [exampleRecord\<lparr>winningPercentage_tr := []\<rparr>],
                 division_dr = None, league_dr = None, season_dr = None\<rparr>]\<rparr>"
    by code_simp
  from p1 p2 p3 p4 t1 t2 t3 t4 show ?thesis by blast
qed


section \<open>The games-back display text\<close>

lemma gamesBackText_TeamStanding_of [simp]:
  "gamesBackText (TeamStanding_of r l d y) = gamesBackText_of (gamesBack_tr r)"
  "gamesBack (TeamStanding_of r l d y) = Double_tolerant (gamesBack_tr r)"
  by (simp_all add: TeamStanding_of_def Let_def)


text \<open>
  Claim C9, as stated, fails for the hyphen: a games-back string \<^verbatim>\<open>"-"\<close> is displayed as
  the hyphen itself, which is not the em-dash.
\<close>

theorem gamesBack_hyphen_counterexample:
  "gamesBackText (TeamStanding_of (exampleRecord\<lparr>gamesBack_tr := Some ''-''\<rparr>) None None 2024) = ''-''
   \<and> ''-'' \<noteq> emDash"
  by code_simp


text \<open>
  Claim C9, amended. The games-back strings \<^verbatim>\<open>"0"\<close> and a missing games-back string
  are displayed as the em-dash, \<^verbatim>\<open>"4.0"\<close> as \<^verbatim>\<open>"4.0 GB"\<close>, which is not the em-dash. A
  dash-like string has no games-back value (absent, not zero) and is displayed as it was
  received, as is every string that the tolerant parser rejects: the em-dash as the
  em-dash, the hyphen as the hyphen.
\<close>

theorem gamesBack_display_text:
  "gamesBackText (TeamStanding_of (r\<lparr>gamesBack_tr := Some ''0''\<rparr>) l d y) = emDash
   \<and> gamesBackText (TeamStanding_of (r\<lparr>gamesBack_tr := None\<rparr>) l d y) = emDash
   \<and> gamesBackText (TeamStanding_of (r\<lparr>gamesBack_tr := Some ''4.0''\<rparr>) l d y) = ''4.0 GB''
   \<and> emDash \<noteq> ''4.0 GB''
   \<and> gamesBackText (TeamStanding_of (r\<lparr>gamesBack_tr := Some emDash\<rparr>) l d y) = emDash
   \<and> gamesBack (TeamStanding_of (r\<lparr>gamesBack_tr := Some emDash\<rparr>) l d y) = None
   \<and> gamesBackText (TeamStanding_of (r\<lparr>gamesBack_tr := Some ''-''\<rparr>) l d y) = ''-''
   \<and> gamesBack (TeamStanding_of (r\<lparr>gamesBack_tr := Some ''-''\<rparr>) l d y) = None
   \<and> (Double_tolerant (Some s) = None \<longrightarrow>
         gamesBackText (TeamStanding_of (r\<lparr>gamesBack_tr := Some s\<rparr>) l d y) = s)"
proof -
  have g0: "gamesBackText_of (Some ''0'') = emDash" by code_simp
  have g1: "gamesBackText_of None = emDash" by code_simp
  have g2: "gamesBackText_of (Some ''4.0'') = ''4.0 GB''" by code_simp
  have g3: "emDash \<noteq> ''4.0 GB''" by code_simp
  have g4: "gamesBackText_of (Some emDash) = emDash" by code_simp
  have g5: "Double_tolerant (Some emDash) = None" by code_simp
  have g6: "gamesBackText_of (Some ''-'') = ''-''" by code_simp
  have g7: "Double_tolerant (Some ''-'') = None" by code_simp
  have g8: "Double_tolerant (Some s) = None \<longrightarrow> gamesBackText_of (Some s) = s"
    by (simp add: gamesBackText_of_def orElse_def)
  from g0 g1 g2 g3 g4 g5 g6 g7 g8 show ?thesis by simp
qed

theorem gamesBack_display_text_witness:
  "Double_tolerant (Some ''-'') = None
   \<and> gamesBackText (TeamStanding_of (exampleRecord\<lparr>gamesBack_tr := Some ''-''\<rparr>) None None 2024) = ''-''"
proof -
  have "Double_tolerant (Some ''-'') = None" by code_simp
  with gamesBack_display_text [of exampleRecord None None 2024 "''-''"] show ?thesis by simp
qed


section \<open>A failed fetch\<close>

text \<open>
  Claim C1, as stated, fails: a view model that holds one section and whose refresh fails
  in the transport holds the two sample sections afterwards, not the section it held.
\<close>

theorem failed_refresh_counterexample:
  "sections ((initialModel 2024)\<lparr>sections := [alEast]\<rparr>) = [alEast]
   \<and> fetchStandings (replying (Failed ''The Internet connection appears to be offline.''))
        2024 [103, 104]
      = Inl (Transport ''The Internet connection appears to be offline.'')
   \<and> sections (refresh 2024 (replying (Failed ''The Internet connection appears to be offline.''))
        ((initialModel 2024)\<lparr>sections := [alEast]\<rparr>)) = [alEast, nlWest]
   \<and> [alEast, nlWest] \<noteq> [alEast]"
  by (simp add: refresh_def loadStandings_def fetchStandings_def replying_def initialModel_def
      applyFilters_def sample_def Let_def)


text \<open>
  Claim C1, amended. When a load or a refresh that gets as far as the fetch fails in it,
  the engine replaces the sections it holds by the built-in sample sections, recomputes the
  filtered view from them, shows the description of the error as a message that is not
  fatal, and is no longer loading.
\<close>

theorem failed_load_shows_sample_data:
  "\<not> isLoading vm \<and> (force \<or> sections vm = [])
   \<and> fetchStandings session (season vm) [103, 104] = Inl e \<longrightarrow>
     sections (loadStandings cur session force vm) = sample
     \<and> filteredSections (loadStandings cur session force vm)
         = filteredSections (applyFilters (vm\<lparr>sections := sample\<rparr>))
     \<and> errorMessage (loadStandings cur session force vm) = Some (userFriendlyDescription e)
     \<and> isLoading (loadStandings cur session force vm) = False"
  by (auto simp add: loadStandings_def Let_def applyFilters_def)

theorem failed_load_shows_sample_data_witness:
  "\<not> isLoading ((initialModel 2024)\<lparr>sections := [alEast]\<rparr>)
   \<and> fetchStandings (replying (Failed ''The Internet connection appears to be offline.''))
        (season ((initialModel 2024)\<lparr>sections := [alEast]\<rparr>)) [103, 104]
      = Inl (Transport ''The Internet connection appears to be offline.'')
   \<and> sections (loadStandings 2024
        (replying (Failed ''The Internet connection appears to be offline.'')) True
        ((initialModel 2024)\<lparr>sections := [alEast]\<rparr>)) = sample
   \<and> errorMessage (loadStandings 2024
        (replying (Failed ''The Internet connection appears to be offline.'')) True
        ((initialModel 2024)\<lparr>sections := [alEast]\<rparr>))
      = Some ''The Internet connection appears to be offline.''"
proof -
  have f: "fetchStandings (replying (Failed ''The Internet connection appears to be offline.''))
        (season ((initialModel 2024)\<lparr>sections := [alEast]\<rparr>)) [103, 104]
      = Inl (Transport ''The Internet connection appears to be offline.'')"
    by (simp add: fetchStandings_def replying_def)
  have l: "\<not> isLoading ((initialModel 2024)\<lparr>sections := [alEast]\<rparr>)"
    by (simp add: initialModel_def)
  from failed_load_shows_sample_data
    [of "(initialModel 2024)\<lparr>sections := [alEast]\<rparr>" True
        "replying (Failed ''The Internet connection appears to be offline.'')"
        "Transport ''The Internet connection appears to be offline.''" 2024] f l
  show ?thesis by (simp add: userFriendlyDescription_def)
qed

section \<open>The stable sort\<close>

lemma strict_weakD:
  assumes "strict_weak lt"
  shows "lt a b \<Longrightarrow> \<not> lt b a" and "\<not> lt a b \<Longrightarrow> \<not> lt b c \<Longrightarrow> \<not> lt a c"
  using assms unfolding strict_weak_def by blast+

lemma insert_by_Cons:
  "ys = [] \<or> \<not> lt (hd ys) x \<Longrightarrow> insert_by lt x ys = x # ys"
  by (cases ys) auto

lemma insert_by_cong:
  "(\<And>y. y \<in> set ys \<Longrightarrow> lt' y x = lt y x) \<Longrightarrow> insert_by lt' x ys = insert_by lt x ys"
  by (induction ys) auto

lemma insert_by_append_left:
  "(\<And>y. y \<in> set as \<Longrightarrow> lt y x) \<Longrightarrow> insert_by lt x (as @ bs) = as @ insert_by lt x bs"
  by (induction as) auto

lemma insert_by_append_right:
  "(\<And>y. y \<in> set bs \<Longrightarrow> \<not> lt y x) \<Longrightarrow> insert_by lt x (as @ bs) = insert_by lt x as @ bs"
proof (induction as)
  case Nil
  then show ?case by (cases bs) auto
next
  case (Cons a as)
  then show ?case by auto
qed

lemma ordered_by_insert:
  assumes sw: "strict_weak lt"
  shows "ordered_by lt ys \<Longrightarrow> ordered_by lt (insert_by lt x ys)"
proof (induction ys)
  case Nil
  show ?case by (simp add: ordered_by_def)
next
  case (Cons y ys)
  show ?case
  proof (cases "lt y x")
    case True
    then have "\<not> lt x y" using strict_weakD(1) [OF sw] by blast
    with True Cons show ?thesis by (auto simp add: ordered_by_def)
  next
    case False
    have "\<not> lt z x" if "z \<in> set ys" for z
    proof -
      from Cons.prems that have "\<not> lt z y" by (auto simp add: ordered_by_def)
      with False show ?thesis using strict_weakD(2) [OF sw] by blast
    qed
    with False Cons.prems show ?thesis by (auto simp add: ordered_by_def)
  qed
qed

lemma ordered_by_sorted_by: "strict_weak lt \<Longrightarrow> ordered_by lt (sorted_by lt xs)"
proof (induction xs)
  case Nil
  show ?case by (simp add: sorted_by_def ordered_by_def)
next
  case (Cons x xs)
  then have "ordered_by lt (insert_by lt x (sorted_by lt xs))" by (simp add: ordered_by_insert)
  then show ?case by (simp add: sorted_by_def)
qed

lemma filter_insert_by_neg: "\<not> P x \<Longrightarrow> filter P (insert_by lt x ys) = filter P ys"
  by (induction ys) auto

lemma filter_insert_by_pos:
  assumes sw: "strict_weak lt" and px: "P x"
  shows "ordered_by lt ys \<Longrightarrow> filter P (insert_by lt x ys) = insert_by lt x (filter P ys)"
proof (induction ys)
  case Nil
  with px show ?case by simp
next
  case (Cons y ys)
  from Cons.prems have ord: "ordered_by lt ys" by (simp add: ordered_by_def)
  show ?case
  proof (cases "lt y x")
    case True
    with Cons.IH [OF ord] px show ?thesis by simp
  next
    case False
    have later: "\<not> lt z x" if "z \<in> set (y # ys)" for z
    proof (cases "z = y")
      case True
      with False show ?thesis by simp
    next
      case neq: False
      with that Cons.prems have "\<not> lt z y" by (auto simp add: ordered_by_def)
      with False show ?thesis using strict_weakD(2) [OF sw] by blast
    qed
    have "insert_by lt x (filter P (y # ys)) = x # filter P (y # ys)"
    proof (rule insert_by_Cons, cases "filter P (y # ys)")
      case Nil
      then show "filter P (y # ys) = [] \<or> \<not> lt (hd (filter P (y # ys))) x" by simp
    next
      case (Cons z zs)
      then have "z \<in> set (filter P (y # ys))" by simp
      then have "z \<in> set (y # ys)" by (simp only: set_filter) blast
      with later Cons show "filter P (y # ys) = [] \<or> \<not> lt (hd (filter P (y # ys))) x"
        by simp
    qed
    with False px show ?thesis by simp
  qed
qed

lemma sorted_by_stable:
  assumes sw: "strict_weak lt" and cls: "\<And>a b. P a \<Longrightarrow> P b \<Longrightarrow> \<not> lt a b"
  shows "filter P (sorted_by lt xs) = filter P xs"
proof (induction xs)
  case Nil
  show ?case by (simp add: sorted_by_def)
next
  case (Cons x xs)
  have unfold: "sorted_by lt (x # xs) = insert_by lt x (sorted_by lt xs)"
    by (simp add: sorted_by_def)
  show ?case
  proof (cases "P x")
    case False
    with Cons unfold show ?thesis by (simp add: filter_insert_by_neg)
  next
    case True
    have "filter P (sorted_by lt (x # xs)) = insert_by lt x (filter P (sorted_by lt xs))"
      using unfold
        filter_insert_by_pos [where lt = lt and P = P and x = x and ys = "sorted_by lt xs"]
        sw True ordered_by_sorted_by [OF sw, of xs]
      by simp
    also have "\<dots> = insert_by lt x (filter P xs)" by (simp add: Cons)
    also have "\<dots> = x # filter P xs"
    proof (rule insert_by_Cons, cases "filter P xs")
      case Nil
      then show "filter P xs = [] \<or> \<not> lt (hd (filter P xs)) x" by simp
    next
      case (Cons z zs)
      then have "z \<in> set (filter P xs)" by simp
      then have "P z" by simp
      with True cls Cons show "filter P xs = [] \<or> \<not> lt (hd (filter P xs)) x" by simp
    qed
    finally show ?thesis using True by simp
  qed
qed

lemma strict_weak_lex:
  fixes k :: "'a \<Rightarrow> 'k::linorder" and r :: "'a \<Rightarrow> int"
  shows "strict_weak (\<lambda>a b. if k a = k b then r a < r b else k a > k b)"
  unfolding strict_weak_def by (auto split: if_splits)

lemma strict_weak_comparator: "strict_weak (comparator opt)"
proof (cases opt)
  case by_divisionRank
  have "comparator by_divisionRank = (\<lambda>a b. orElse (divisionRank a) 0 < orElse (divisionRank b) 0)"
    by (intro ext) simp
  with by_divisionRank show ?thesis unfolding strict_weak_def by auto
next
  case by_winningPercentage
  have "comparator by_winningPercentage =
      (\<lambda>a b. if winningPercentage a = winningPercentage b
              then orElse (divisionRank a) 0 < orElse (divisionRank b) 0
              else winningPercentage a > winningPercentage b)"
    by (intro ext) simp
  with by_winningPercentage strict_weak_lex [of winningPercentage "\<lambda>t. orElse (divisionRank t) 0"]
  show ?thesis by simp
next
  case by_runDifferential
  have "comparator by_runDifferential =
      (\<lambda>a b. if orElse (runDifferential a) Int_min = orElse (runDifferential b) Int_min
              then orElse (divisionRank a) 0 < orElse (divisionRank b) 0
              else orElse (runDifferential a) Int_min > orElse (runDifferential b) Int_min)"
    by (intro ext) simp
  with by_runDifferential
    strict_weak_lex [of "\<lambda>t. orElse (runDifferential t) Int_min" "\<lambda>t. orElse (divisionRank t) 0"]
  show ?thesis by simp
next
  case by_streak
  have "comparator by_streak =
      (\<lambda>a b. if streakCount a = streakCount b
              then orElse (divisionRank a) 0 < orElse (divisionRank b) 0
              else streakCount a > streakCount b)"
    by (intro ext) simp
  with by_streak strict_weak_lex [of streakCount "\<lambda>t. orElse (divisionRank t) 0"]
  show ?thesis by simp
next
  case by_lastTen
  have "comparator by_lastTen =
      (\<lambda>a b. if lastTenWinRate a = lastTenWinRate b
              then orElse (divisionRank a) 0 < orElse (divisionRank b) 0
              else lastTenWinRate a > lastTenWinRate b)"
    by (intro ext) simp
  with by_lastTen strict_weak_lex [of lastTenWinRate "\<lambda>t. orElse (divisionRank t) 0"]
  show ?thesis by simp
next
  case by_runsScored
  have "comparator by_runsScored =
      (\<lambda>a b. if orElse (runsScored a) Int_min = orElse (runsScored b) Int_min
              then orElse (divisionRank a) 0 < orElse (divisionRank b) 0
              else orElse (runsScored a) Int_min > orElse (runsScored b) Int_min)"
    by (intro ext) simp
  with by_runsScored
    strict_weak_lex [of "\<lambda>t. orElse (runsScored t) Int_min" "\<lambda>t. orElse (divisionRank t) 0"]
  show ?thesis by simp
qed

lemma strict_weak_pin:
  assumes sw: "strict_weak lt"
  shows "strict_weak (\<lambda>a b. if F a = F b then lt a b else F a \<and> \<not> F b)"
  unfolding strict_weak_def
proof (intro conjI allI impI)
  fix a b
  assume "if F a = F b then lt a b else F a \<and> \<not> F b"
  then show "\<not> (if F b = F a then lt b a else F b \<and> \<not> F a)"
    using strict_weakD(1) [OF sw, of a b] by (cases "F a"; cases "F b"; simp)
next
  fix a b c
  assume 1: "\<not> (if F a = F b then lt a b else F a \<and> \<not> F b)"
    and 2: "\<not> (if F b = F c then lt b c else F b \<and> \<not> F c)"
  show "\<not> (if F a = F c then lt a c else F a \<and> \<not> F c)"
    using 1 2 strict_weakD(2) [OF sw, of a b c]
    by (cases "F a"; cases "F b"; cases "F c"; simp)
qed

lemma strict_weak_prioritized: "strict_weak (prioritized_order favs opt)"
proof -
  have "prioritized_order favs opt =
      (\<lambda>a b. if (id_t a \<in> favs) = (id_t b \<in> favs) then comparator opt a b
              else id_t a \<in> favs \<and> \<not> id_t b \<in> favs)"
    by (intro ext) (simp add: prioritized_order_def Let_def)
  with strict_weak_pin [OF strict_weak_comparator, of "\<lambda>t. id_t t \<in> favs" opt]
  show ?thesis by simp
qed

lemma sorted_by_Cons: "sorted_by lt (x # xs) = insert_by lt x (sorted_by lt xs)"
  by (simp add: sorted_by_def)

lemma pinned_sort:
  "sorted_by (prioritized_order favs opt) ts =
     filter (\<lambda>t. id_t t \<in> favs) (sorted_by (comparator opt) ts)
     @ filter (\<lambda>t. id_t t \<notin> favs) (sorted_by (comparator opt) ts)"
proof (induction ts)
  case Nil
  show ?case by (simp add: sorted_by_def)
next
  case (Cons x xs)
  let ?S = "sorted_by (comparator opt) xs"
  let ?A = "filter (\<lambda>t. id_t t \<in> favs) ?S"
  let ?B = "filter (\<lambda>t. id_t t \<notin> favs) ?S"
  note sw = strict_weak_comparator [of opt]
  note ord = ordered_by_sorted_by [OF sw, of xs]
  have step: "sorted_by (prioritized_order favs opt) (x # xs)
      = insert_by (prioritized_order favs opt) x (?A @ ?B)"
    using Cons by (simp add: sorted_by_Cons)
  show ?case
  proof (cases "id_t x \<in> favs")
    case True
    have 1: "insert_by (prioritized_order favs opt) x (?A @ ?B)
        = insert_by (prioritized_order favs opt) x ?A @ ?B"
      by (rule insert_by_append_right) (simp add: prioritized_order_def True)
    have 2: "insert_by (prioritized_order favs opt) x ?A = insert_by (comparator opt) x ?A"
      by (rule insert_by_cong) (simp add: prioritized_order_def True)
    have 3: "insert_by (comparator opt) x ?A
        = filter (\<lambda>t. id_t t \<in> favs) (insert_by (comparator opt) x ?S)"
      using filter_insert_by_pos [where lt = "comparator opt" and P = "\<lambda>t. id_t t \<in> favs"
          and x = x and ys = ?S] sw ord True by simp
    have 4: "?B = filter (\<lambda>t. id_t t \<notin> favs) (insert_by (comparator opt) x ?S)"
      using True by (simp add: filter_insert_by_neg)
    have "sorted_by (prioritized_order favs opt) (x # xs)
        = filter (\<lambda>t. id_t t \<in> favs) (insert_by (comparator opt) x ?S)
          @ filter (\<lambda>t. id_t t \<notin> favs) (insert_by (comparator opt) x ?S)"
      using step 1 2 3 4 by metis
    then show ?thesis by (simp only: sorted_by_Cons)
  next
    case False
    have 1: "insert_by (prioritized_order favs opt) x (?A @ ?B)
        = ?A @ insert_by (prioritized_order favs opt) x ?B"
      by (rule insert_by_append_left) (simp add: prioritized_order_def False)
    have 2: "insert_by (prioritized_order favs opt) x ?B = insert_by (comparator opt) x ?B"
      by (rule insert_by_cong) (simp add: prioritized_order_def False)
    have 3: "insert_by (comparator opt) x ?B
        = filter (\<lambda>t. id_t t \<notin> favs) (insert_by (comparator opt) x ?S)"
      using filter_insert_by_pos [where lt = "comparator opt" and P = "\<lambda>t. id_t t \<notin> favs"
          and x = x and ys = ?S] sw ord False by simp
    have 4: "?A = filter (\<lambda>t. id_t t \<in> favs) (insert_by (comparator opt) x ?S)"
      using False by (simp add: filter_insert_by_neg)
    have "sorted_by (prioritized_order favs opt) (x # xs)
        = filter (\<lambda>t. id_t t \<in> favs) (insert_by (comparator opt) x ?S)
          @ filter (\<lambda>t. id_t t \<notin> favs) (insert_by (comparator opt) x ?S)"
      using step 1 2 3 4 by metis
    then show ?thesis by (simp only: sorted_by_Cons)
  qed
qed

lemma filterSection_sorted:
  "filterSection vm s = Some s' \<Longrightarrow> \<exists>ts. teams s' = sort_teams vm ts \<and> set ts \<subseteq> set (teams s)"
  by (auto simp add: filterSection_def Let_def split: if_splits)


section \<open>Favorite pinning\<close>

text \<open>
  Claim C3. For every state, the sorted teams are the stable partition of the list that
  the comparator of the sort option alone produces: first its favorited teams, then its
  other teams, each group in the order it has in that list. Every section of the filtered
  view holds such a list, made of teams of one source section.
\<close>

theorem favorites_pinned_stably:
  "sort_teams vm ts =
     filter (\<lambda>t. id_t t \<in> favorites vm) (sorted_by (comparator (sortOption vm)) ts)
     @ filter (\<lambda>t. id_t t \<notin> favorites vm) (sorted_by (comparator (sortOption vm)) ts)
   \<and> (\<forall>s' \<in> set (filteredSections (applyFilters vm)).
         \<exists>s \<in> set (sections vm). \<exists>ts.
           set ts \<subseteq> set (teams s)
           \<and> teams s' =
               filter (\<lambda>t. id_t t \<in> favorites vm) (sorted_by (comparator (sortOption vm)) ts)
               @ filter (\<lambda>t. id_t t \<notin> favorites vm)
                   (sorted_by (comparator (sortOption vm)) ts))"
proof -
  have pin: "sort_teams vm ts =
     filter (\<lambda>t. id_t t \<in> favorites vm) (sorted_by (comparator (sortOption vm)) ts)
     @ filter (\<lambda>t. id_t t \<notin> favorites vm) (sorted_by (comparator (sortOption vm)) ts)" for ts
    unfolding sort_teams_def by (rule pinned_sort)
  have "\<exists>s \<in> set (sections vm). \<exists>ts.
           set ts \<subseteq> set (teams s)
           \<and> teams s' =
               filter (\<lambda>t. id_t t \<in> favorites vm) (sorted_by (comparator (sortOption vm)) ts)
               @ filter (\<lambda>t. id_t t \<notin> favorites vm)
                   (sorted_by (comparator (sortOption vm)) ts)"
    if "s' \<in> set (filteredSections (applyFilters vm))" for s'
  proof -
    from that obtain s where s: "s \<in> set (sections vm)" "filterSection vm s = Some s'"
      using set_filteredSections by blast
    from s(2) obtain ts where "teams s' = sort_teams vm ts" "set ts \<subseteq> set (teams s)"
      using filterSection_sorted by blast
    with pin [of ts] s(1) show ?thesis by metis
  qed
  with pin show ?thesis by blast
qed

theorem favorites_pinned_stably_witness:
  "alEast\<lparr>teams := [redSox, yankees, orioles, rays, blueJays]\<rparr>
     \<in> set (filteredSections (applyFilters ((initialModel 2024)\<lparr>sections := sample, favorites := {111}\<rparr>)))
   \<and> sort_teams ((initialModel 2024)\<lparr>sections := sample, favorites := {111}\<rparr>) (teams alEast)
       = [redSox, yankees, orioles, rays, blueJays]
   \<and> filter (\<lambda>t. id_t t \<in> {111}) (sorted_by (comparator by_divisionRank) (teams alEast)) = [redSox]
   \<and> filter (\<lambda>t. id_t t \<notin> {111}) (sorted_by (comparator by_divisionRank) (teams alEast))
       = [yankees, orioles, rays, blueJays]"
proof -
  have 1: "filteredSections (applyFilters ((initialModel 2024)\<lparr>sections := sample, favorites := {111}\<rparr>))
      = [alEast\<lparr>teams := [redSox, yankees, orioles, rays, blueJays]\<rparr>, nlWest]"
    by code_simp
  have 2: "filter (\<lambda>t. id_t t \<in> {111}) (sorted_by (comparator by_divisionRank) (teams alEast)) = [redSox]"
    by code_simp
  have 3: "filter (\<lambda>t. id_t t \<notin> {111}) (sorted_by (comparator by_divisionRank) (teams alEast))
       = [yankees, orioles, rays, blueJays]"
    by code_simp
  from favorites_pinned_stably
    [of "(initialModel 2024)\<lparr>sections := sample, favorites := {111}\<rparr>" "teams alEast"] 1 2 3
  show ?thesis by (simp add: initialModel_def)
qed


section \<open>The tie-break\<close>

text \<open>
  Claim C4. For every sort option other than division rank, two teams that agree on the
  primary metric are ordered by ascending division rank, an absent rank counting as 0: a
  team without rank comes before a team of rank 1 or more. Sorting by winning percentage
  is stable: teams that agree on the percentage and on the tie-break rank keep their
  order, also through the favorite pinning when they agree on being favorites.
\<close>

theorem tie_break_by_division_rank:
  "(opt \<noteq> by_divisionRank \<and> primaryMetric opt a = primaryMetric opt b \<longrightarrow>
      comparator opt a b = (orElse (divisionRank a) 0 < orElse (divisionRank b) 0))
   \<and> (opt \<noteq> by_divisionRank \<and> primaryMetric opt a = primaryMetric opt b
        \<and> divisionRank a = None \<and> divisionRank b = Some r \<and> 1 \<le> r \<longrightarrow>
      comparator opt a b \<and> \<not> comparator opt b a
      \<and> sorted_by (comparator opt) [b, a] = [a, b])
   \<and> filter (\<lambda>t. winningPercentage t = p \<and> orElse (divisionRank t) 0 = k)
        (sorted_by (comparator by_winningPercentage) ts)
      = filter (\<lambda>t. winningPercentage t = p \<and> orElse (divisionRank t) 0 = k) ts
   \<and> (sortOption vm = by_winningPercentage \<longrightarrow>
        filter (\<lambda>t. (id_t t \<in> favorites vm) = f \<and> winningPercentage t = p
                    \<and> orElse (divisionRank t) 0 = k) (sort_teams vm ts)
        = filter (\<lambda>t. (id_t t \<in> favorites vm) = f \<and> winningPercentage t = p
                    \<and> orElse (divisionRank t) 0 = k) ts)"
proof -
  have tie: "comparator opt a b = (orElse (divisionRank a) 0 < orElse (divisionRank b) 0)"
    if "opt \<noteq> by_divisionRank" "primaryMetric opt a = primaryMetric opt b" for a b
    using that by (cases opt) (simp_all add: primaryMetric_def)
  have absent: "comparator opt a b \<and> \<not> comparator opt b a
      \<and> sorted_by (comparator opt) [b, a] = [a, b]"
    if "opt \<noteq> by_divisionRank" "primaryMetric opt a = primaryMetric opt b"
      "divisionRank a = None" "divisionRank b = Some r" "1 \<le> r"
  proof -
    from that have "comparator opt a b" "\<not> comparator opt b a"
      using tie [of a b] tie [of b a] by (simp_all add: orElse_def)
    then show ?thesis by (simp add: sorted_by_def)
  qed
  have stable: "filter (\<lambda>t. winningPercentage t = p \<and> orElse (divisionRank t) 0 = k)
        (sorted_by (comparator by_winningPercentage) ts)
      = filter (\<lambda>t. winningPercentage t = p \<and> orElse (divisionRank t) 0 = k) ts"
    by (rule sorted_by_stable [OF strict_weak_comparator]) simp
  have pinned: "filter (\<lambda>t. (id_t t \<in> favorites vm) = f \<and> winningPercentage t = p
                    \<and> orElse (divisionRank t) 0 = k) (sort_teams vm ts)
        = filter (\<lambda>t. (id_t t \<in> favorites vm) = f \<and> winningPercentage t = p
                    \<and> orElse (divisionRank t) 0 = k) ts"
    if "sortOption vm = by_winningPercentage"
    unfolding sort_teams_def
    by (rule sorted_by_stable [OF strict_weak_prioritized])
      (simp add: prioritized_order_def that)
  from tie absent stable pinned show ?thesis by blast
qed

theorem tie_break_by_division_rank_witness:
  "by_winningPercentage \<noteq> by_divisionRank
   \<and> primaryMetric by_winningPercentage (orioles\<lparr>winningPercentage := 0.674, divisionRank := None\<rparr>)
       = primaryMetric by_winningPercentage yankees
   \<and> divisionRank (orioles\<lparr>winningPercentage := 0.674, divisionRank := None\<rparr>) = None
   \<and> divisionRank yankees = Some 1
   \<and> comparator by_winningPercentage
        (orioles\<lparr>winningPercentage := 0.674, divisionRank := None\<rparr>) yankees
   \<and> sorted_by (comparator by_winningPercentage)
        [yankees, orioles\<lparr>winningPercentage := 0.674, divisionRank := None\<rparr>]
      = [orioles\<lparr>winningPercentage := 0.674, divisionRank := None\<rparr>, yankees]
   \<and> sortOption ((initialModel 2024)\<lparr>sortOption := by_winningPercentage\<rparr>) = by_winningPercentage
   \<and> sort_teams ((initialModel 2024)\<lparr>sortOption := by_winningPercentage\<rparr>)
        [orioles\<lparr>winningPercentage := 0.674, divisionRank := Some 1\<rparr>, yankees]
      = [orioles\<lparr>winningPercentage := 0.674, divisionRank := Some 1\<rparr>, yankees]"
proof -
  have 1: "primaryMetric by_winningPercentage (orioles\<lparr>winningPercentage := 0.674, divisionRank := None\<rparr>)
       = primaryMetric by_winningPercentage yankees"
    by (simp add: primaryMetric_def yankees_def)
  have 2: "divisionRank yankees = Some 1" by (simp add: yankees_def)
  have 3: "sortOption ((initialModel 2024)\<lparr>sortOption := by_winningPercentage\<rparr>) = by_winningPercentage"
    by simp
  have 4: "sort_teams ((initialModel 2024)\<lparr>sortOption := by_winningPercentage\<rparr>)
        [orioles\<lparr>winningPercentage := 0.674, divisionRank := Some 1\<rparr>, yankees]
      = [orioles\<lparr>winningPercentage := 0.674, divisionRank := Some 1\<rparr>, yankees]"
    by code_simp
  have 5: "divisionRank (orioles\<lparr>winningPercentage := 0.674, divisionRank := None\<rparr>) = None"
    by simp
  have 6: "by_winningPercentage \<noteq> by_divisionRank" by simp
  have 7: "(1::int) \<le> 1" by simp
  from tie_break_by_division_rank
    [of by_winningPercentage "orioles\<lparr>winningPercentage := 0.674, divisionRank := None\<rparr>"
      yankees 1]
  have "by_winningPercentage \<noteq> by_divisionRank
      \<and> primaryMetric by_winningPercentage
          (orioles\<lparr>winningPercentage := 0.674, divisionRank := None\<rparr>)
        = primaryMetric by_winningPercentage yankees
      \<and> divisionRank (orioles\<lparr>winningPercentage := 0.674, divisionRank := None\<rparr>) = None
      \<and> divisionRank yankees = Some 1 \<and> (1::int) \<le> 1 \<longrightarrow>
    comparator by_winningPercentage
        (orioles\<lparr>winningPercentage := 0.674, divisionRank := None\<rparr>) yankees
    \<and> \<not> comparator by_winningPercentage yankees
        (orioles\<lparr>winningPercentage := 0.674, divisionRank := None\<rparr>)
    \<and> sorted_by (comparator by_winningPercentage)
        [yankees, orioles\<lparr>winningPercentage := 0.674, divisionRank := None\<rparr>]
      = [orioles\<lparr>winningPercentage := 0.674, divisionRank := None\<rparr>, yankees]"
    by blast
  with 1 2 3 4 5 6 7 show ?thesis by blast
qed

section \<open>What the fetch client accepts\<close>

lemma those_map_Some:
  "those (map f xs) = Some ys \<Longrightarrow> x \<in> set xs \<Longrightarrow> f x \<noteq> None"
  by (induction xs arbitrary: ys) (auto split: option.splits)

lemma decode_Array_Some:
  "decode_Array dec j = Some vs \<Longrightarrow> \<exists>js. j = JArray js \<and> (\<forall>x \<in> set js. dec x \<noteq> None)"
  by (cases j) (auto simp add: decode_Array_def dest: those_map_Some)

lemma required_Some:
  "required dec k kvs = Some v \<Longrightarrow> \<exists>jv. map_of kvs k = Some jv \<and> dec jv = Some v"
  by (auto simp add: required_def split: option.splits json.splits)

lemma decode_StandingsResponse_Some:
  assumes "decode_StandingsResponse j = Some r"
  shows "\<exists>kvs divs. j = JObject kvs \<and> map_of kvs ''records'' = Some (JArray divs)
     \<and> (\<forall>d \<in> set divs. decode_DivisionRecord d \<noteq> None)"
proof -
  from assms obtain kvs where j: "j = JObject kvs"
    and "required (decode_Array decode_DivisionRecord) ''records'' kvs \<noteq> None"
    by (cases j) (auto simp add: decode_StandingsResponse_def keyed_def bind_eq_Some_conv)
  then obtain jv vs where "map_of kvs ''records'' = Some jv"
    "decode_Array decode_DivisionRecord jv = Some vs"
    using required_Some by fastforce
  with j show ?thesis using decode_Array_Some by fastforce
qed

lemma decode_DivisionRecord_Some:
  assumes "decode_DivisionRecord d \<noteq> None"
  shows "\<exists>dk trs. d = JObject dk \<and> map_of dk ''teamRecords'' = Some (JArray trs)
     \<and> (\<forall>t \<in> set trs. decode_TeamRecord t \<noteq> None)"
proof -
  from assms obtain dk where d: "d = JObject dk"
    and "required (decode_Array decode_TeamRecord) ''teamRecords'' dk \<noteq> None"
    by (cases d) (auto simp add: decode_DivisionRecord_def keyed_def bind_eq_Some_conv)
  then obtain jv vs where "map_of dk ''teamRecords'' = Some jv"
    "decode_Array decode_TeamRecord jv = Some vs"
    using required_Some by fastforce
  with d show ?thesis using decode_Array_Some by fastforce
qed

lemma decode_TeamRecord_Some:
  assumes "decode_TeamRecord t \<noteq> None"
  shows "\<exists>tk. t = JObject tk
     \<and> required decode_TeamInfo ''team'' tk \<noteq> None
     \<and> required decode_Int ''wins'' tk \<noteq> None
     \<and> required decode_Int ''losses'' tk \<noteq> None
     \<and> required decode_String ''winningPercentage'' tk \<noteq> None"
  using assms
  by (cases t) (auto simp add: decode_TeamRecord_def keyed_def bind_eq_Some_conv)

lemma decode_TeamInfo_Some:
  assumes "required decode_TeamInfo ''team'' tk \<noteq> None"
  shows "\<exists>tm. map_of tk ''team'' = Some (JObject tm)
     \<and> required decode_Int ''id'' tm \<noteq> None \<and> required decode_String ''name'' tm \<noteq> None"
proof -
  from assms obtain jv v where jv: "map_of tk ''team'' = Some jv" "decode_TeamInfo jv = Some v"
    using required_Some by fastforce
  from jv(2) have "\<exists>tm. jv = JObject tm
     \<and> required decode_Int ''id'' tm \<noteq> None \<and> required decode_String ''name'' tm \<noteq> None"
    by (cases jv) (auto simp add: decode_TeamInfo_def keyed_def bind_eq_Some_conv)
  with jv(1) show ?thesis by auto
qed


lemma decoded_team_records:
  assumes "decode_StandingsResponse j = Some r"
  shows "\<exists>kvs divs. j = JObject kvs \<and> map_of kvs ''records'' = Some (JArray divs)
        \<and> (\<forall>d \<in> set divs. \<exists>dk trs.
               d = JObject dk \<and> map_of dk ''teamRecords'' = Some (JArray trs)
               \<and> (\<forall>t \<in> set trs. \<exists>tk tm.
                      t = JObject tk \<and> map_of tk ''team'' = Some (JObject tm)
                      \<and> required decode_Int ''id'' tm \<noteq> None
                      \<and> required decode_String ''name'' tm \<noteq> None
                      \<and> required decode_Int ''wins'' tk \<noteq> None
                      \<and> required decode_Int ''losses'' tk \<noteq> None
                      \<and> required decode_String ''winningPercentage'' tk \<noteq> None))"
proof -
  define teamOK where "teamOK t \<longleftrightarrow>
       (\<exists>tk tm. t = JObject tk \<and> map_of tk ''team'' = Some (JObject tm)
          \<and> required decode_Int ''id'' tm \<noteq> None
          \<and> required decode_String ''name'' tm \<noteq> None
          \<and> required decode_Int ''wins'' tk \<noteq> None
          \<and> required decode_Int ''losses'' tk \<noteq> None
          \<and> required decode_String ''winningPercentage'' tk \<noteq> None)" for t
  define blockOK where "blockOK d \<longleftrightarrow>
       (\<exists>dk trs. d = JObject dk \<and> map_of dk ''teamRecords'' = Some (JArray trs)
          \<and> (\<forall>t \<in> set trs. teamOK t))" for d
  have team: "teamOK t" if "decode_TeamRecord t \<noteq> None" for t
  proof -
    from decode_TeamRecord_Some [OF that] obtain tk where tk: "t = JObject tk"
      "required decode_TeamInfo ''team'' tk \<noteq> None"
      "required decode_Int ''wins'' tk \<noteq> None"
      "required decode_Int ''losses'' tk \<noteq> None"
      "required decode_String ''winningPercentage'' tk \<noteq> None"
      by (elim exE conjE)
    from decode_TeamInfo_Some [OF tk(2)] obtain tm where tm:
      "map_of tk ''team'' = Some (JObject tm)" "required decode_Int ''id'' tm \<noteq> None"
      "required decode_String ''name'' tm \<noteq> None"
      by (elim exE conjE)
    show ?thesis unfolding teamOK_def
      by (rule exI [of _ tk], rule exI [of _ tm]) (intro conjI tk tm)
  qed
  have block: "blockOK d" if "decode_DivisionRecord d \<noteq> None" for d
  proof -
    from decode_DivisionRecord_Some [OF that] obtain dk trs where dk:
      "d = JObject dk" "map_of dk ''teamRecords'' = Some (JArray trs)"
      "\<forall>t \<in> set trs. decode_TeamRecord t \<noteq> None"
      by (elim exE conjE)
    from dk(3) team have "\<forall>t \<in> set trs. teamOK t" by blast
    with dk(1,2) show ?thesis unfolding blockOK_def by blast
  qed
  from decode_StandingsResponse_Some [OF assms] obtain kvs divs where top:
    "j = JObject kvs" "map_of kvs ''records'' = Some (JArray divs)"
    "\<forall>d \<in> set divs. decode_DivisionRecord d \<noteq> None"
    by (elim exE conjE)
  from top(3) block have "\<forall>d \<in> set divs. blockOK d" by blast
  then have "\<forall>d \<in> set divs. \<exists>dk trs.
               d = JObject dk \<and> map_of dk ''teamRecords'' = Some (JArray trs)
               \<and> (\<forall>t \<in> set trs. \<exists>tk tm.
                      t = JObject tk \<and> map_of tk ''team'' = Some (JObject tm)
                      \<and> required decode_Int ''id'' tm \<noteq> None
                      \<and> required decode_String ''name'' tm \<noteq> None
                      \<and> required decode_Int ''wins'' tk \<noteq> None
                      \<and> required decode_Int ''losses'' tk \<noteq> None
                      \<and> required decode_String ''winningPercentage'' tk \<noteq> None)"
    unfolding blockOK_def teamOK_def .
  with top(1,2) show ?thesis
    by (intro exI [of _ kvs] exI [of _ divs] conjI)
qed


text \<open>
  Claim C2, as stated, fails: a reply whose records container is present and is a list,
  and whose one team record has no \<^verbatim>\<open>wins\<close>, makes the fetch fail with the decoding
  error; the load that follows holds the sample sections, so the team record and its
  section are gone.
\<close>

theorem fetch_missing_wins_counterexample:
  "fetchStandings
     (replying (Answered (Some 200) (Some (exampleBody
        [(''team'', JObject [(''id'', JNumber 147), (''name'', JString ''New York Yankees'')]),
         (''losses'', JNumber 30), (''winningPercentage'', JString ''.674'')]))))
     2024 [103, 104]
   = Inl (Service decodingFailed)
   \<and> sections
       (loadStandings 2024
          (replying (Answered (Some 200) (Some (exampleBody
             [(''team'', JObject [(''id'', JNumber 147), (''name'', JString ''New York Yankees'')]),
              (''losses'', JNumber 30), (''winningPercentage'', JString ''.674'')]))))
          False (initialModel 2024))
     = sample"
  by code_simp



text \<open>
  Claim C2, amended. An error of the transport is passed on, and a status other than 200
  is the error of an invalid response. With status 200, the fetch fails with the decoding
  error unless the body is an object whose \<^verbatim>\<open>records\<close> is a list, every division block
  of it is an object whose \<^verbatim>\<open>teamRecords\<close> is a list, and every team record of it is an
  object with a \<^verbatim>\<open>team\<close> object that has an integer \<^verbatim>\<open>id\<close> and a string \<^verbatim>\<open>name\<close>, with
  integers \<^verbatim>\<open>wins\<close> and \<^verbatim>\<open>losses\<close> and with a string \<^verbatim>\<open>winningPercentage\<close>. What is
  tolerated is the content of the strings: a team record with these fields is fetched
  whatever its percentage and games-back strings say.
\<close>

theorem fetch_fails_on_any_decoding_failure:
  "(session y ids = Failed description \<longrightarrow>
      fetchStandings session y ids = Inl (Transport description))
   \<and> (session y ids = Answered status body \<and> status \<noteq> Some 200 \<longrightarrow>
        fetchStandings session y ids = Inl (Service invalidResponse))
   \<and> (session y ids = Answered (Some 200) body
        \<and> fetchStandings session y ids \<noteq> Inl (Service decodingFailed) \<longrightarrow>
      (\<exists>kvs divs. body = Some (JObject kvs) \<and> map_of kvs ''records'' = Some (JArray divs)
        \<and> (\<forall>d \<in> set divs. \<exists>dk trs.
               d = JObject dk \<and> map_of dk ''teamRecords'' = Some (JArray trs)
               \<and> (\<forall>t \<in> set trs. \<exists>tk tm.
                      t = JObject tk \<and> map_of tk ''team'' = Some (JObject tm)
                      \<and> required decode_Int ''id'' tm \<noteq> None
                      \<and> required decode_String ''name'' tm \<noteq> None
                      \<and> required decode_Int ''wins'' tk \<noteq> None
                      \<and> required decode_Int ''losses'' tk \<noteq> None
                      \<and> required decode_String ''winningPercentage'' tk \<noteq> None))))
   \<and> fetchStandings
        (replying (Answered (Some 200) (Some (exampleBody
           [(''team'', JObject [(''id'', JNumber 147), (''name'', JString ''New York Yankees'')]),
            (''wins'', JNumber 62), (''losses'', JNumber 30),
            (''winningPercentage'', JString p), (''gamesBack'', JString g)]))))
        y ids
      = Inr \<lparr>records =
               [\<lparr>teamRecords_dr =
                    [exampleRecord\<lparr>winningPercentage_tr := p, gamesBack_tr := Some g\<rparr>],
                 division_dr = None, league_dr = None, season_dr = None\<rparr>]\<rparr>"
proof -
  have tolerant: "fetchStandings
        (replying (Answered (Some 200) (Some (exampleBody
           [(''team'', JObject [(''id'', JNumber 147), (''name'', JString ''New York Yankees'')]),
            (''wins'', JNumber 62), (''losses'', JNumber 30),
            (''winningPercentage'', JString p), (''gamesBack'', JString g)]))))
        y ids
      = Inr \<lparr>records =
               [\<lparr>teamRecords_dr =
                    [exampleRecord\<lparr>winningPercentage_tr := p, gamesBack_tr := Some g\<rparr>],
                 division_dr = None, league_dr = None, season_dr = None\<rparr>]\<rparr>"
    by (simp add: fetchStandings_def replying_def exampleBody_def exampleRecord_def
        decode_StandingsResponse_def decode_DivisionRecord_def decode_TeamRecord_def
        decode_TeamInfo_def decode_Array_def keyed_def required_def ifPresent_def
        decode_Int_def decode_String_def Int_min_def Int_max_def)
  have ok: "(\<exists>kvs divs. body = Some (JObject kvs) \<and> map_of kvs ''records'' = Some (JArray divs)
        \<and> (\<forall>d \<in> set divs. \<exists>dk trs.
               d = JObject dk \<and> map_of dk ''teamRecords'' = Some (JArray trs)
               \<and> (\<forall>t \<in> set trs. \<exists>tk tm.
                      t = JObject tk \<and> map_of tk ''team'' = Some (JObject tm)
                      \<and> required decode_Int ''id'' tm \<noteq> None
                      \<and> required decode_String ''name'' tm \<noteq> None
                      \<and> required decode_Int ''wins'' tk \<noteq> None
                      \<and> required decode_Int ''losses'' tk \<noteq> None
                      \<and> required decode_String ''winningPercentage'' tk \<noteq> None)))"
    if "session y ids = Answered (Some 200) body"
      "fetchStandings session y ids \<noteq> Inl (Service decodingFailed)"
  proof -
    from that obtain j r where "body = Some j" "decode_StandingsResponse j = Some r"
      by (cases body) (auto simp add: fetchStandings_def split: option.splits)
    with decoded_team_records [of j r] show ?thesis by simp
  qed
  have other: "session y ids = Failed description \<longrightarrow>
      fetchStandings session y ids = Inl (Transport description)"
    "session y ids = Answered status body \<and> status \<noteq> Some 200 \<longrightarrow>
        fetchStandings session y ids = Inl (Service invalidResponse)"
    by (simp_all add: fetchStandings_def)
  from tolerant ok other show ?thesis by blast
qed


theorem fetch_fails_on_any_decoding_failure_witness:
  "replying (Answered (Some 200) (Some (exampleBody
        [(''team'', JObject [(''id'', JNumber 147), (''name'', JString ''New York Yankees'')]),
            (''wins'', JNumber 62), (''losses'', JNumber 30),
            (''winningPercentage'', JString ''.674'')]))) 2024 [103, 104]
     = Answered (Some 200) (Some (exampleBody
        [(''team'', JObject [(''id'', JNumber 147), (''name'', JString ''New York Yankees'')]),
            (''wins'', JNumber 62), (''losses'', JNumber 30),
            (''winningPercentage'', JString ''.674'')]))
   \<and> fetchStandings (replying (Answered (Some 200) (Some (exampleBody
        [(''team'', JObject [(''id'', JNumber 147), (''name'', JString ''New York Yankees'')]),
            (''wins'', JNumber 62), (''losses'', JNumber 30),
            (''winningPercentage'', JString ''.674'')])))) 2024 [103, 104]
     \<noteq> Inl (Service decodingFailed)
   \<and> (\<exists>kvs divs. Some (exampleBody
        [(''team'', JObject [(''id'', JNumber 147), (''name'', JString ''New York Yankees'')]),
            (''wins'', JNumber 62), (''losses'', JNumber 30),
            (''winningPercentage'', JString ''.674'')]) = Some (JObject kvs) \<and> map_of kvs ''records'' = Some (JArray divs)
        \<and> (\<forall>d \<in> set divs. \<exists>dk trs.
               d = JObject dk \<and> map_of dk ''teamRecords'' = Some (JArray trs)
               \<and> (\<forall>t \<in> set trs. \<exists>tk tm.
                      t = JObject tk \<and> map_of tk ''team'' = Some (JObject tm)
                      \<and> required decode_Int ''id'' tm \<noteq> None
                      \<and> required decode_String ''name'' tm \<noteq> None
                      \<and> required decode_Int ''wins'' tk \<noteq> None
                      \<and> required decode_Int ''losses'' tk \<noteq> None
                      \<and> required decode_String ''winningPercentage'' tk \<noteq> None)))"
proof -
  have 1: "replying (Answered (Some 200) (Some (exampleBody
        [(''team'', JObject [(''id'', JNumber 147), (''name'', JString ''New York Yankees'')]),
            (''wins'', JNumber 62), (''losses'', JNumber 30),
            (''winningPercentage'', JString ''.674'')]))) 2024 [103, 104]
     = Answered (Some 200) (Some (exampleBody
        [(''team'', JObject [(''id'', JNumber 147), (''name'', JString ''New York Yankees'')]),
            (''wins'', JNumber 62), (''losses'', JNumber 30),
            (''winningPercentage'', JString ''.674'')]))"
    by (simp add: replying_def)
  have 2: "fetchStandings (replying (Answered (Some 200) (Some (exampleBody
        [(''team'', JObject [(''id'', JNumber 147), (''name'', JString ''New York Yankees'')]),
            (''wins'', JNumber 62), (''losses'', JNumber 30),
            (''winningPercentage'', JString ''.674'')])))) 2024 [103, 104]
     \<noteq> Inl (Service decodingFailed)"
    by code_simp
  from fetch_fails_on_any_decoding_failure
    [of "replying (Answered (Some 200) (Some (exampleBody
        [(''team'', JObject [(''id'', JNumber 147), (''name'', JString ''New York Yankees'')]),
            (''wins'', JNumber 62), (''losses'', JNumber 30),
            (''winningPercentage'', JString ''.674'')])))" 2024 "[103, 104]" _ _ "Some (exampleBody
        [(''team'', JObject [(''id'', JNumber 147), (''name'', JString ''New York Yankees'')]),
            (''wins'', JNumber 62), (''losses'', JNumber 30),
            (''winningPercentage'', JString ''.674'')])"] 1 2
  show ?thesis by blast
qed


end
